theory Spec2Isabelle
  imports Main
begin

section \<open>Session orchestration of the inbox cleaner (src/pages/Home.tsx)\<close>

text \<open>
  The component \<open>Home\<close> keeps its state in React state variables and in the browser's
  \<open>localStorage\<close>. Each handler of the component is embedded as a function on a record
  of that state. An \<open>async\<close> handler is split at its single \<open>await\<close>: the part before
  it (\<open>_begin\<close>) returns the new state and the request handed to the agent gateway, the
  part after it (\<open>_resume\<close>) takes what the gateway gave back. A handler is a closure of
  the render in which it was invoked, so the part after the \<open>await\<close> still reads the state
  variables of that render (\<open>activityLog\<close>, \<open>selectedEmails\<close>); the resuming function
  therefore takes that render's state \<open>c\<close> beside the current state \<open>s\<close>, and uses
  \<open>s\<close> only where the source uses a functional update or a plain assignment.
\<close>

subsection \<open>Data model\<close>

record CriteriaIdentified =
  sender :: "string option"
  date_range :: string
  category :: string
  crit_keywords :: "string list"

record EmailPreview =
  ep_id :: string
  ep_sender :: string
  subject :: string
  date :: string
  snippet :: string
  ep_category :: "string option"

text \<open>JavaScript numbers are modelled as integers.\<close>

record RandomAgentResponse =
  action :: string
  emails_found :: int
  emails_deleted :: int
  criteria_identified :: CriteriaIdentified
  email_preview :: "EmailPreview list"
  confirmation_required :: bool
  message :: string

record RuleResult =
  rule_name :: string
  rule_type :: string
  rr_emails_found :: int
  rr_emails_deleted :: int
  label_ids :: "string list option"
  days_older_than :: "int option"
  rr_status :: string

record CleanupSummary =
  total_emails_processed :: int
  total_emails_deleted :: int
  rules_executed :: int
  execution_time_seconds :: int

record PeriodicResponse =
  cleanup_summary :: CleanupSummary
  rules_results :: "RuleResult list"
  next_scheduled_run :: string
  errors :: "string list"

datatype role = User | Assistant

record ChatMessage =
  cm_id :: string
  cm_role :: role
  content :: string
  cm_timestamp :: string

datatype log_status = Success | Error

record ActivityLog =
  al_id :: string
  al_timestamp :: string
  al_action :: string
  emailsDeleted :: int
  al_status :: log_status

datatype frequency = Daily | Weekly | Disabled

record CleanupSettings =
  promotional :: bool
  oldEmails :: bool
  ageThreshold :: int
  scheduleEnabled :: bool
  frequency :: frequency
  scheduleTime :: string
  requireConfirmation :: bool
  maxEmailsPerRun :: int

subsection \<open>The gateway's envelope\<close>

text \<open>
  Modelled from the spec: the type \<open>NormalizedAgentResponse\<close> of \<open>@/utils/aiAgent\<close> is
  not part of the sources; the spec gives it as
  \<open>{success, error?, response: {status, message?, result?}}\<close>. The result is cast by
  the caller to the shape of the agent it invoked, hence the type parameter. A gateway
  call either rejects or resolves with an envelope.
\<close>

record 'r agent_response =
  resp_status :: string
  resp_message :: "string option"
  resp_result :: "'r option"

record 'r envelope =
  env_success :: bool
  env_error :: "string option"
  env_response :: "'r agent_response"

datatype 'r outcome = Rejected | Resolved "'r envelope"

record request =
  req_message :: string
  req_agent :: string

definition RANDOM_AGENT_ID :: string where
  "RANDOM_AGENT_ID = ''69787126a75ef8a94cc4f0d1''"

definition PERIODIC_AGENT_ID :: string where
  "PERIODIC_AGENT_ID = ''697871441b6268d7b95195f6''"

subsection \<open>JSON values and the durable store\<close>

datatype json =
  JNull
  | JBool bool
  | JNum int
  | JStr string
  | JArr "json list"
  | JObj "(string \<times> json) list"

text \<open>
  \<open>JSON.stringify\<close> and \<open>JSON.parse\<close> belong to the language, not to the program. A text
  held by the store is represented by what \<open>JSON.parse\<close> makes of it: \<open>JsonText v\<close> is a
  text that parses to \<open>v\<close> (the text \<open>JSON.stringify\<close> writes for \<open>v\<close> among them),
  \<open>OtherText t\<close> is a text \<open>t\<close> that \<open>JSON.parse\<close> rejects with a SyntaxError. The empty
  text is \<open>OtherText []\<close>; no JSON text is empty.
\<close>

datatype stored_text = JsonText json | OtherText string

datatype js_error = SyntaxError | StorageError

definition JSON_stringify :: "json \<Rightarrow> stored_text" where
  "JSON_stringify v = JsonText v"

fun JSON_parse :: "stored_text \<Rightarrow> js_error + json" where
  "JSON_parse (JsonText v) = Inr v"
| "JSON_parse (OtherText t) = Inl SyntaxError"

text \<open>A text is falsy in a condition exactly when it is empty.\<close>

fun truthy_text :: "stored_text \<Rightarrow> bool" where
  "truthy_text (JsonText v) = True"
| "truthy_text (OtherText t) = (t \<noteq> [])"

text \<open>
  The store: its items, and whether a read or a write throws (access denied, quota
  exceeded).
\<close>

record storage =
  items :: "string \<rightharpoonup> stored_text"
  read_throws :: bool
  write_throws :: bool

definition getItem :: "storage \<Rightarrow> string \<Rightarrow> js_error + stored_text option" where
  "getItem st k = (if read_throws st then Inl StorageError else Inr (items st k))"

definition setItem :: "storage \<Rightarrow> string \<Rightarrow> stored_text \<Rightarrow> js_error + storage" where
  "setItem st k v =
     (if write_throws st then Inl StorageError else Inr (st\<lparr>items := (items st)(k \<mapsto> v)\<rparr>))"

subsection \<open>Numbers and text\<close>

definition digit_char :: "nat \<Rightarrow> char" where
  "digit_char d = ''0123456789'' ! d"

fun show_nat :: "nat \<Rightarrow> string" where
  "show_nat n = (if n < 10 then [digit_char n] else show_nat (n div 10) @ [digit_char (n mod 10)])"

declare show_nat.simps [simp del]

text \<open>
  The decimal text of an integer, as a template literal prints a number that is an
  integer of magnitude below \<open>10^21\<close>; from there on JavaScript prints an exponent,
  which the integers of the model do not follow.
\<close>

definition show_int :: "int \<Rightarrow> string" where
  "show_int i = (if i < 0 then CHR ''-'' # show_nat (nat (- i)) else show_nat (nat i))"

definition show_bool :: "bool \<Rightarrow> string" where
  "show_bool b = (if b then ''true'' else ''false'')"

text \<open>\<open>Array.prototype.join\<close>.\<close>

fun join :: "string \<Rightarrow> string list \<Rightarrow> string" where
  "join sep [] = []"
| "join sep [x] = x"
| "join sep (x # y # ys) = x @ sep @ join sep (y # ys)"

text \<open>
  \<open>String.prototype.trim\<close> removes white space and line terminators at both ends; of the
  characters of the model these are tab, line feed, vertical tab, form feed, carriage
  return, space and the no-break space.
\<close>

definition is_space :: "char \<Rightarrow> bool" where
  "is_space ch = (of_char ch \<in> {9, 10, 11, 12, 13, 32, 160 :: nat})"

definition js_trim :: "string \<Rightarrow> string" where
  "js_trim t = rev (dropWhile is_space (rev (dropWhile is_space t)))"

text \<open>\<open>a || b\<close> on an optional text: the first operand unless it is undefined or empty.\<close>

definition or_text :: "string option \<Rightarrow> string \<Rightarrow> string" where
  "or_text a b = (case a of None \<Rightarrow> b | Some t \<Rightarrow> if t = [] then b else t)"

text \<open>The clock read by \<open>Date.now()\<close> and \<open>new Date().toISOString()\<close>.\<close>

record clock =
  date_now :: nat
  iso_now :: string

subsection \<open>Sets of ids\<close>

text \<open>
  A JavaScript \<open>Set\<close> keeps its elements in insertion order without repetition; it is a
  list here, \<open>size\<close> is \<open>length\<close> and \<open>has\<close> is membership.
\<close>

definition set_add :: "'a list \<Rightarrow> 'a \<Rightarrow> 'a list" where
  "set_add S x = (if x \<in> set S then S else S @ [x])"

definition set_delete :: "'a list \<Rightarrow> 'a \<Rightarrow> 'a list" where
  "set_delete S x = filter (\<lambda>y. y \<noteq> x) S"

definition new_Set :: "'a list \<Rightarrow> 'a list" where
  "new_Set xs = foldl set_add [] xs"

subsection \<open>Serialised forms\<close>

definition frequency_text :: "frequency \<Rightarrow> string" where
  "frequency_text f = (case f of Daily \<Rightarrow> ''daily'' | Weekly \<Rightarrow> ''weekly'' | Disabled \<Rightarrow> ''disabled'')"

definition status_text :: "log_status \<Rightarrow> string" where
  "status_text st = (case st of Success \<Rightarrow> ''success'' | Error \<Rightarrow> ''error'')"

definition json_of_settings :: "CleanupSettings \<Rightarrow> json" where
  "json_of_settings c = JObj
     [(''promotional'', JBool (promotional c)),
      (''oldEmails'', JBool (oldEmails c)),
      (''ageThreshold'', JNum (ageThreshold c)),
      (''scheduleEnabled'', JBool (scheduleEnabled c)),
      (''frequency'', JStr (frequency_text (frequency c))),
      (''scheduleTime'', JStr (scheduleTime c)),
      (''requireConfirmation'', JBool (requireConfirmation c)),
      (''maxEmailsPerRun'', JNum (maxEmailsPerRun c))]"

definition json_of_log :: "ActivityLog \<Rightarrow> json" where
  "json_of_log l = JObj
     [(''id'', JStr (al_id l)),
      (''timestamp'', JStr (al_timestamp l)),
      (''action'', JStr (al_action l)),
      (''emailsDeleted'', JNum (emailsDeleted l)),
      (''status'', JStr (status_text (al_status l)))]"

definition json_of_logs :: "ActivityLog list \<Rightarrow> json" where
  "json_of_logs ls = JArr (map json_of_log ls)"

subsection \<open>The state of the component\<close>

record app_state =
  activeTab :: string
  activityLog :: "ActivityLog list"
  settings :: CleanupSettings
  chatMessages :: "ChatMessage list"
  chatInput :: string
  chatLoading :: bool
  emailPreviews :: "EmailPreview list"
  selectedEmails :: "string list"
  chatError :: "string option"
  periodicLoading :: bool
  periodicError :: "string option"
  settingsSaved :: bool
  localStorage :: storage

subsection \<open>Persistence\<close>

text \<open>
  \<open>loadActivityLog\<close> returns what the stored text parses to, or the empty array; the
  effect that runs after the first render puts it into \<open>activityLog\<close>.
\<close>

definition loadActivityLog :: "storage \<Rightarrow> json" where
  "loadActivityLog st =
     (case getItem st ''gmail_activity_log'' of
        Inl e \<Rightarrow> JArr []
      | Inr None \<Rightarrow> JArr []
      | Inr (Some stored) \<Rightarrow>
          if truthy_text stored
          then (case JSON_parse stored of Inl e \<Rightarrow> JArr [] | Inr v \<Rightarrow> v)
          else JArr [])"

text \<open>A failed write is reported on the console only; the store is left as it was.\<close>

definition saveActivityLog :: "ActivityLog list \<Rightarrow> storage \<Rightarrow> storage" where
  "saveActivityLog logs st =
     (case setItem st ''gmail_activity_log'' (JSON_stringify (json_of_logs logs)) of
        Inl e \<Rightarrow> st
      | Inr st' \<Rightarrow> st')"

definition default_settings :: CleanupSettings where
  "default_settings =
     \<lparr>promotional = True, oldEmails = True, ageThreshold = 30, scheduleEnabled = False,
      frequency = Weekly, scheduleTime = ''09:00'', requireConfirmation = True,
      maxEmailsPerRun = 100\<rparr>"

text \<open>
  \<open>loadSettings\<close> returns whatever the stored text parses to: the declared return type is
  not checked when the program runs, so the result is a JSON value.
\<close>

definition loadSettings :: "storage \<Rightarrow> json" where
  "loadSettings st =
     (case getItem st ''gmail_cleanup_settings'' of
        Inl e \<Rightarrow> json_of_settings default_settings
      | Inr None \<Rightarrow> json_of_settings default_settings
      | Inr (Some stored) \<Rightarrow>
          if truthy_text stored
          then (case JSON_parse stored of
                  Inl e \<Rightarrow> json_of_settings default_settings
                | Inr v \<Rightarrow> v)
          else json_of_settings default_settings)"

text \<open>
  \<open>saveSettings\<close>: the confirmation flag is set only when the write went through, and a
  timer clears it three seconds later (\<open>settingsSaved_timeout\<close>).
\<close>

definition saveSettings :: "app_state \<Rightarrow> app_state" where
  "saveSettings s =
     (case setItem (localStorage s) ''gmail_cleanup_settings''
             (JSON_stringify (json_of_settings (settings s))) of
        Inl e \<Rightarrow> s
      | Inr st' \<Rightarrow> s\<lparr>localStorage := st', settingsSaved := True\<rparr>)"

definition settingsSaved_timeout :: "app_state \<Rightarrow> app_state" where
  "settingsSaved_timeout s = s\<lparr>settingsSaved := False\<rparr>"

text \<open>
  \<open>addActivityLog\<close> builds the new list from \<open>activityLog\<close> of the render \<open>c\<close> whose
  closure it is, stores it in the state and hands the same list to \<open>saveActivityLog\<close>.
\<close>

definition addActivityLog ::
  "clock \<Rightarrow> app_state \<Rightarrow> string \<Rightarrow> int \<Rightarrow> log_status \<Rightarrow> app_state \<Rightarrow> app_state" where
  "addActivityLog clk c act n st s =
     (let newLog = \<lparr>al_id = show_nat (date_now clk), al_timestamp = iso_now clk,
                     al_action = act, emailsDeleted = n, al_status = st\<rparr>;
          updatedLogs = take 50 (newLog # activityLog c)
      in s\<lparr>activityLog := updatedLogs,
           localStorage := saveActivityLog updatedLogs (localStorage s)\<rparr>)"

subsection \<open>Selection\<close>

definition toggleEmailSelection :: "string \<Rightarrow> app_state \<Rightarrow> app_state" where
  "toggleEmailSelection emailId s =
     s\<lparr>selectedEmails :=
         (if emailId \<in> set (selectedEmails s) then set_delete (selectedEmails s) emailId
          else set_add (selectedEmails s) emailId)\<rparr>"

definition selectAllEmails :: "app_state \<Rightarrow> app_state" where
  "selectAllEmails s =
     (if length (selectedEmails s) = length (emailPreviews s)
      then s\<lparr>selectedEmails := []\<rparr>
      else s\<lparr>selectedEmails := new_Set (map ep_id (emailPreviews s))\<rparr>)"

subsection \<open>Chat\<close>

definition network_error :: string where
  "network_error = ''Network error. Please try again.''"

definition assistant_message :: "clock \<Rightarrow> string \<Rightarrow> ChatMessage" where
  "assistant_message clk txt =
     \<lparr>cm_id = show_nat (date_now clk + 1), cm_role = Assistant, content = txt,
      cm_timestamp = iso_now clk\<rparr>"

definition sendChatMessage_begin :: "clock \<Rightarrow> app_state \<Rightarrow> app_state \<times> request option" where
  "sendChatMessage_begin clk s =
     (if js_trim (chatInput s) = [] \<or> chatLoading s then (s, None)
      else
        (let userMessage = \<lparr>cm_id = show_nat (date_now clk), cm_role = User,
                             content = chatInput s, cm_timestamp = iso_now clk\<rparr>
         in (s\<lparr>chatMessages := chatMessages s @ [userMessage], chatInput := [],
               chatLoading := True, chatError := None\<rparr>,
             Some \<lparr>req_message = chatInput s, req_agent = RANDOM_AGENT_ID\<rparr>)))"

text \<open>The \<open>catch\<close> block of \<open>sendChatMessage\<close>.\<close>

definition sendChatMessage_catch :: "clock \<Rightarrow> app_state \<Rightarrow> app_state" where
  "sendChatMessage_catch clk s =
     s\<lparr>chatError := Some network_error,
       chatMessages := chatMessages s @ [assistant_message clk network_error]\<rparr>"

text \<open>
  The body of the \<open>try\<close> after the \<open>await\<close>. Without a result, \<open>data\<close> is undefined and
  reading \<open>data.message\<close> throws before any state is set, which the \<open>catch\<close> block takes.
\<close>

definition sendChatMessage_try ::
  "clock \<Rightarrow> app_state \<Rightarrow> RandomAgentResponse envelope \<Rightarrow> app_state \<Rightarrow> app_state" where
  "sendChatMessage_try clk c result s =
     (if env_success result \<and> resp_status (env_response result) = ''success'' then
        (case resp_result (env_response result) of
           None \<Rightarrow> sendChatMessage_catch clk s
         | Some data \<Rightarrow>
             (let s1 = s\<lparr>chatMessages := chatMessages s @ [assistant_message clk (message data)]\<rparr>;
                  s2 = (if email_preview data \<noteq> []
                        then s1\<lparr>emailPreviews := email_preview data, selectedEmails := []\<rparr>
                        else s1\<lparr>emailPreviews := []\<rparr>)
              in if emails_deleted data > 0
                 then addActivityLog clk c
                        (''Chat cleanup: '' @
                           (if category (criteria_identified data) = [] then ''emails''
                            else category (criteria_identified data)))
                        (emails_deleted data) Success s2
                 else s2))
      else
        (let errorMsg = or_text (env_error result)
                          (or_text (resp_message (env_response result))
                             ''Failed to process request'')
         in s\<lparr>chatError := Some errorMsg,
              chatMessages := chatMessages s @ [assistant_message clk errorMsg]\<rparr>))"

definition sendChatMessage_resume ::
  "clock \<Rightarrow> app_state \<Rightarrow> RandomAgentResponse outcome \<Rightarrow> app_state \<Rightarrow> app_state" where
  "sendChatMessage_resume clk c out s =
     (case out of
        Rejected \<Rightarrow> sendChatMessage_catch clk s
      | Resolved result \<Rightarrow> sendChatMessage_try clk c result s)
     \<lparr>chatLoading := False\<rparr>"

text \<open>
  One whole invocation with nothing else happening while the request is outstanding:
  \<open>gw\<close> is the gateway, \<open>clk\<close> the clock at the call and \<open>clk'\<close> at the answer.
\<close>

definition sendChatMessage ::
  "clock \<Rightarrow> clock \<Rightarrow> (request \<Rightarrow> RandomAgentResponse outcome) \<Rightarrow> app_state \<Rightarrow> app_state" where
  "sendChatMessage clk clk' gw s =
     (case sendChatMessage_begin clk s of
        (s1, None) \<Rightarrow> s1
      | (s1, Some req) \<Rightarrow> sendChatMessage_resume clk' s (gw req) s1)"

definition deleteSelectedEmails_begin :: "app_state \<Rightarrow> app_state \<times> request option" where
  "deleteSelectedEmails_begin s =
     (if length (selectedEmails s) = 0 then (s, None)
      else (s\<lparr>chatLoading := True, chatError := None\<rparr>,
            Some \<lparr>req_message = ''Delete these specific emails: '' @ join '', '' (selectedEmails s),
                  req_agent = RANDOM_AGENT_ID\<rparr>))"

text \<open>
  The \<open>try\<close> body after the \<open>await\<close>: the arguments of \<open>addActivityLog\<close> are evaluated
  first, so an undefined \<open>data\<close> throws before any state is set.
\<close>

definition deleteSelectedEmails_try ::
  "clock \<Rightarrow> app_state \<Rightarrow> RandomAgentResponse envelope \<Rightarrow> app_state \<Rightarrow> app_state" where
  "deleteSelectedEmails_try clk c result s =
     (if env_success result \<and> resp_status (env_response result) = ''success'' then
        (case resp_result (env_response result) of
           None \<Rightarrow> s\<lparr>chatError := Some network_error\<rparr>
         | Some data \<Rightarrow>
             (let s1 = addActivityLog clk c
                         (''Deleted '' @ show_nat (length (selectedEmails c)) @ '' selected emails'')
                         (emails_deleted data) Success s;
                  s2 = s1\<lparr>emailPreviews :=
                             filter (\<lambda>e. ep_id e \<notin> set (selectedEmails c)) (emailPreviews s1),
                           selectedEmails := []\<rparr>;
                  confirmMessage = \<lparr>cm_id = show_nat (date_now clk), cm_role = Assistant,
                      content = ''Successfully deleted '' @ show_int (emails_deleted data) @ '' emails.'',
                      cm_timestamp = iso_now clk\<rparr>
              in s2\<lparr>chatMessages := chatMessages s2 @ [confirmMessage]\<rparr>))
      else s\<lparr>chatError := Some (or_text (env_error result) ''Failed to delete emails'')\<rparr>)"

definition deleteSelectedEmails_resume ::
  "clock \<Rightarrow> app_state \<Rightarrow> RandomAgentResponse outcome \<Rightarrow> app_state \<Rightarrow> app_state" where
  "deleteSelectedEmails_resume clk c out s =
     (case out of
        Rejected \<Rightarrow> s\<lparr>chatError := Some network_error\<rparr>
      | Resolved result \<Rightarrow> deleteSelectedEmails_try clk c result s)
     \<lparr>chatLoading := False\<rparr>"

definition deleteSelectedEmails ::
  "clock \<Rightarrow> (request \<Rightarrow> RandomAgentResponse outcome) \<Rightarrow> app_state \<Rightarrow> app_state" where
  "deleteSelectedEmails clk' gw s =
     (case deleteSelectedEmails_begin s of
        (s1, None) \<Rightarrow> s1
      | (s1, Some req) \<Rightarrow> deleteSelectedEmails_resume clk' s (gw req) s1)"

subsection \<open>Periodic cleanup\<close>

definition runCleanupNow_begin :: "app_state \<Rightarrow> app_state \<times> request option" where
  "runCleanupNow_begin s =
     (s\<lparr>periodicLoading := True, periodicError := None\<rparr>,
      Some \<lparr>req_message =
              ''Run cleanup with settings: promotional='' @ show_bool (promotional (settings s)) @
              '', old_emails='' @ show_bool (oldEmails (settings s)) @
              '', age_threshold='' @ show_int (ageThreshold (settings s)) @ '' days'',
            req_agent = PERIODIC_AGENT_ID\<rparr>)"

definition runCleanupNow_catch :: "clock \<Rightarrow> app_state \<Rightarrow> app_state \<Rightarrow> app_state" where
  "runCleanupNow_catch clk c s =
     addActivityLog clk c ''Scheduled cleanup failed'' 0 Error
       (s\<lparr>periodicError := Some network_error\<rparr>)"

definition runCleanupNow_try ::
  "clock \<Rightarrow> app_state \<Rightarrow> PeriodicResponse envelope \<Rightarrow> app_state \<Rightarrow> app_state" where
  "runCleanupNow_try clk c result s =
     (if env_success result \<and> resp_status (env_response result) = ''success'' then
        (case resp_result (env_response result) of
           None \<Rightarrow> runCleanupNow_catch clk c s
         | Some data \<Rightarrow>
             (addActivityLog clk c ''Scheduled cleanup executed''
                (total_emails_deleted (cleanup_summary data)) Success s)
             \<lparr>activeTab := ''dashboard''\<rparr>)
      else
        addActivityLog clk c ''Scheduled cleanup failed'' 0 Error
          (s\<lparr>periodicError := Some (or_text (env_error result) ''Cleanup failed'')\<rparr>))"

definition runCleanupNow_resume ::
  "clock \<Rightarrow> app_state \<Rightarrow> PeriodicResponse outcome \<Rightarrow> app_state \<Rightarrow> app_state" where
  "runCleanupNow_resume clk c out s =
     (case out of
        Rejected \<Rightarrow> runCleanupNow_catch clk c s
      | Resolved result \<Rightarrow> runCleanupNow_try clk c result s)
     \<lparr>periodicLoading := False\<rparr>"

definition testRunCleanup_begin :: "app_state \<Rightarrow> app_state \<times> request option" where
  "testRunCleanup_begin s =
     (s\<lparr>periodicLoading := True, periodicError := None\<rparr>,
      Some \<lparr>req_message =
              ''Test cleanup (dry run) with settings: promotional='' @
              show_bool (promotional (settings s)) @
              '', old_emails='' @ show_bool (oldEmails (settings s)) @
              '', age_threshold='' @ show_int (ageThreshold (settings s)) @
              '' days. Do not delete, just show what would be deleted.'',
            req_agent = PERIODIC_AGENT_ID\<rparr>)"

definition testRunCleanup_try ::
  "clock \<Rightarrow> app_state \<Rightarrow> PeriodicResponse envelope \<Rightarrow> app_state \<Rightarrow> app_state" where
  "testRunCleanup_try clk c result s =
     (if env_success result \<and> resp_status (env_response result) = ''success'' then
        (case resp_result (env_response result) of
           None \<Rightarrow> s\<lparr>periodicError := Some network_error\<rparr>
         | Some data \<Rightarrow>
             addActivityLog clk c
               (''Test run: would delete '' @
                  show_int (total_emails_processed (cleanup_summary data)) @ '' emails'')
               0 Success s)
      else s\<lparr>periodicError := Some (or_text (env_error result) ''Test run failed'')\<rparr>)"

definition testRunCleanup_resume ::
  "clock \<Rightarrow> app_state \<Rightarrow> PeriodicResponse outcome \<Rightarrow> app_state \<Rightarrow> app_state" where
  "testRunCleanup_resume clk c out s =
     (case out of
        Rejected \<Rightarrow> s\<lparr>periodicError := Some network_error\<rparr>
      | Resolved result \<Rightarrow> testRunCleanup_try clk c result s)
     \<lparr>periodicLoading := False\<rparr>"

subsection \<open>What the rendered controls dispatch\<close>

text \<open>
  The buttons and the input of the rendered page: a disabled control dispatches nothing,
  and the two buttons of the preview panel exist only while the batch is not empty.
\<close>

definition click_send :: "clock \<Rightarrow> app_state \<Rightarrow> app_state \<times> request option" where
  "click_send clk s =
     (if chatLoading s \<or> js_trim (chatInput s) = [] then (s, None)
      else sendChatMessage_begin clk s)"

definition press_enter :: "clock \<Rightarrow> app_state \<Rightarrow> app_state \<times> request option" where
  "press_enter clk s = (if chatLoading s then (s, None) else sendChatMessage_begin clk s)"

definition click_delete_selected :: "app_state \<Rightarrow> app_state \<times> request option" where
  "click_delete_selected s =
     (if length (emailPreviews s) > 0
      then (if length (selectedEmails s) = 0 \<or> chatLoading s then (s, None)
            else deleteSelectedEmails_begin s)
      else (s, None))"

definition click_run_cleanup_now :: "app_state \<Rightarrow> app_state \<times> request option" where
  "click_run_cleanup_now s = (if periodicLoading s then (s, None) else runCleanupNow_begin s)"

definition click_test_run :: "app_state \<Rightarrow> app_state \<times> request option" where
  "click_test_run s = (if periodicLoading s then (s, None) else testRunCleanup_begin s)"

subsection \<open>Initial state\<close>

definition empty_storage :: storage where
  "empty_storage = \<lparr>items = Map.empty, read_throws = False, write_throws = False\<rparr>"

text \<open>The state of the first render over an empty store.\<close>

definition initial_state :: app_state where
  "initial_state =
     \<lparr>activeTab = ''dashboard'', activityLog = [], settings = default_settings,
      chatMessages = [], chatInput = [], chatLoading = False, emailPreviews = [],
      selectedEmails = [], chatError = None, periodicLoading = False,
      periodicError = None, settingsSaved = False, localStorage = empty_storage\<rparr>"

text \<open>The \<open>onChange\<close> handler of the input.\<close>

definition setChatInput :: "string \<Rightarrow> app_state \<Rightarrow> app_state" where
  "setChatInput txt s = s\<lparr>chatInput := txt\<rparr>"

text \<open>The tabs.\<close>

definition setActiveTab :: "string \<Rightarrow> app_state \<Rightarrow> app_state" where
  "setActiveTab tab s = s\<lparr>activeTab := tab\<rparr>"

subsection \<open>Notions used by the properties\<close>

text \<open>A run of \<open>toggleEmailSelection\<close> calls, one id after the other.\<close>

fun toggles :: "string list \<Rightarrow> app_state \<Rightarrow> app_state" where
  "toggles [] s = s"
| "toggles (i # ids) s = toggles ids (toggleEmailSelection i s)"

text \<open>
  A run of \<open>addActivityLog\<close> calls, each made from the render that follows the call
  before it, so that each sees the list the previous one left.
\<close>

record log_call =
  lc_clock :: clock
  lc_action :: string
  lc_count :: int
  lc_status :: log_status

definition log_entry :: "log_call \<Rightarrow> ActivityLog" where
  "log_entry e =
     \<lparr>al_id = show_nat (date_now (lc_clock e)), al_timestamp = iso_now (lc_clock e),
      al_action = lc_action e, emailsDeleted = lc_count e, al_status = lc_status e\<rparr>"

fun appends :: "log_call list \<Rightarrow> app_state \<Rightarrow> app_state" where
  "appends [] s = s"
| "appends (e # es) s =
     appends es (addActivityLog (lc_clock e) s (lc_action e) (lc_count e) (lc_status e) s)"

text \<open>
  The outcomes that do not reach the success branch of a handler: the gateway call
  rejects, the envelope or its status is not a success, or the result is missing.
\<close>

definition agent_failure :: "'r outcome \<Rightarrow> bool" where
  "agent_failure out =
     (case out of
        Rejected \<Rightarrow> True
      | Resolved r \<Rightarrow>
          (if env_success r \<and> resp_status (env_response r) = ''success''
           then resp_result (env_response r) = None else True))"

text \<open>The text \<open>sendChatMessage\<close> shows for such an outcome.\<close>

definition submit_error_text :: "RandomAgentResponse outcome \<Rightarrow> string" where
  "submit_error_text out =
     (case out of
        Rejected \<Rightarrow> network_error
      | Resolved r \<Rightarrow>
          if env_success r \<and> resp_status (env_response r) = ''success'' then network_error
          else or_text (env_error r)
                 (or_text (resp_message (env_response r)) ''Failed to process request''))"

text \<open>The text \<open>deleteSelectedEmails\<close> puts into the error slot for such an outcome.\<close>

definition delete_error_text :: "RandomAgentResponse outcome \<Rightarrow> string" where
  "delete_error_text out =
     (case out of
        Rejected \<Rightarrow> network_error
      | Resolved r \<Rightarrow>
          if env_success r \<and> resp_status (env_response r) = ''success'' then network_error
          else or_text (env_error r) ''Failed to delete emails'')"

text \<open>One whole invocation of \<open>deleteSelectedEmails\<close> sends this request.\<close>

definition delete_request :: "app_state \<Rightarrow> request" where
  "delete_request s =
     \<lparr>req_message = ''Delete these specific emails: '' @ join '', '' (selectedEmails s),
      req_agent = RANDOM_AGENT_ID\<rparr>"

text \<open>
  Reading a JSON value as a settings record: an object that has every field of
  \<open>CleanupSettings\<close> with a value of the declared type.
\<close>

fun get_bool :: "(string \<times> json) list \<Rightarrow> string \<Rightarrow> bool option" where
  "get_bool fs k = (case map_of fs k of Some (JBool b) \<Rightarrow> Some b | _ \<Rightarrow> None)"

fun get_num :: "(string \<times> json) list \<Rightarrow> string \<Rightarrow> int option" where
  "get_num fs k = (case map_of fs k of Some (JNum n) \<Rightarrow> Some n | _ \<Rightarrow> None)"

fun get_str :: "(string \<times> json) list \<Rightarrow> string \<Rightarrow> string option" where
  "get_str fs k = (case map_of fs k of Some (JStr t) \<Rightarrow> Some t | _ \<Rightarrow> None)"

definition frequency_of_text :: "string \<Rightarrow> frequency option" where
  "frequency_of_text t =
     (if t = ''daily'' then Some Daily else if t = ''weekly'' then Some Weekly
      else if t = ''disabled'' then Some Disabled else None)"

fun settings_of_json :: "json \<Rightarrow> CleanupSettings option" where
  "settings_of_json (JObj fs) =
     Option.bind (get_bool fs ''promotional'') (\<lambda>p.
     Option.bind (get_bool fs ''oldEmails'') (\<lambda>old.
     Option.bind (get_num fs ''ageThreshold'') (\<lambda>age.
     Option.bind (get_bool fs ''scheduleEnabled'') (\<lambda>en.
     Option.bind (Option.bind (get_str fs ''frequency'') frequency_of_text) (\<lambda>fr.
     Option.bind (get_str fs ''scheduleTime'') (\<lambda>tm.
     Option.bind (get_bool fs ''requireConfirmation'') (\<lambda>rc.
     Option.bind (get_num fs ''maxEmailsPerRun'') (\<lambda>mx.
       Some \<lparr>promotional = p, oldEmails = old, ageThreshold = age, scheduleEnabled = en,
             frequency = fr, scheduleTime = tm, requireConfirmation = rc,
             maxEmailsPerRun = mx\<rparr>))))))))"
| "settings_of_json _ = None"

subsection \<open>Concrete data\<close>

definition clk0 :: clock where
  "clk0 = \<lparr>date_now = 1000, iso_now = ''1970-01-01T00:00:01.000Z''\<rparr>"

definition clk1 :: clock where
  "clk1 = \<lparr>date_now = 2000, iso_now = ''1970-01-01T00:00:02.000Z''\<rparr>"

definition example_preview :: "string \<Rightarrow> EmailPreview" where
  "example_preview i =
     \<lparr>ep_id = i, ep_sender = ''Shop News'', subject = ''Sale'', date = ''2024-01-05'',
      snippet = ''Everything must go'', ep_category = Some ''promotions''\<rparr>"

definition example_data :: "EmailPreview list \<Rightarrow> int \<Rightarrow> RandomAgentResponse" where
  "example_data ps n =
     \<lparr>action = ''search'', emails_found = int (length ps), emails_deleted = n,
      criteria_identified =
        \<lparr>sender = None, date_range = ''all'', category = ''promotions'', crit_keywords = []\<rparr>,
      email_preview = ps, confirmation_required = False, message = ''Done.''\<rparr>"

definition example_summary :: "int \<Rightarrow> int \<Rightarrow> PeriodicResponse" where
  "example_summary processed deleted =
     \<lparr>cleanup_summary =
        \<lparr>total_emails_processed = processed, total_emails_deleted = deleted,
         rules_executed = 2, execution_time_seconds = 3\<rparr>,
      rules_results = [], next_scheduled_run = ''2024-01-12T09:00:00Z'', errors = []\<rparr>"

definition success_envelope :: "'r \<Rightarrow> 'r envelope" where
  "success_envelope d =
     \<lparr>env_success = True, env_error = None,
      env_response = \<lparr>resp_status = ''success'', resp_message = None, resp_result = Some d\<rparr>\<rparr>"

definition failure_envelope :: "string \<Rightarrow> 'r envelope" where
  "failure_envelope t =
     \<lparr>env_success = False, env_error = Some t,
      env_response = \<lparr>resp_status = ''error'', resp_message = None, resp_result = None\<rparr>\<rparr>"

text \<open>Gateways that answer every request alike.\<close>

definition gw_unavailable :: "request \<Rightarrow> RandomAgentResponse outcome" where
  "gw_unavailable req = Resolved (failure_envelope ''Agent unavailable'')"

definition gw_two_deleted :: "request \<Rightarrow> RandomAgentResponse outcome" where
  "gw_two_deleted req = Resolved (success_envelope (example_data [] 2))"

definition gw_rejects :: "request \<Rightarrow> RandomAgentResponse outcome" where
  "gw_rejects req = Rejected"

text \<open>A chat session showing five previews of which three are selected.\<close>

definition five_previews :: app_state where
  "five_previews =
     initial_state
       \<lparr>emailPreviews := map example_preview [''e1'', ''e2'', ''e3'', ''e4'', ''e5''],
        selectedEmails := [''e1'', ''e3'', ''e5'']\<rparr>"

text \<open>One preview, selected.\<close>

definition one_selected :: app_state where
  "one_selected =
     initial_state\<lparr>emailPreviews := [example_preview ''e1''], selectedEmails := [''e1'']\<rparr>"

text \<open>A store whose settings item holds a record with a single field.\<close>

definition partial_store :: storage where
  "partial_store =
     \<lparr>items = [''gmail_cleanup_settings'' \<mapsto> JsonText (JObj [(''promotional'', JBool False)])],
      read_throws = False, write_throws = False\<rparr>"

text \<open>
  A periodic run and a chat request that overlap. The user presses \<open>Run Cleanup Now\<close>
  on the first render, moves to the chat tab and submits a query; the chat answer
  (three emails deleted) arrives first, the answer of the periodic agent (17 deleted)
  after it. \<open>overlap_chat_done\<close> is the state between the two answers.
\<close>

definition clk2 :: clock where
  "clk2 = \<lparr>date_now = 3000, iso_now = ''1970-01-01T00:00:03.000Z''\<rparr>"

definition overlap_chat_done :: app_state where
  "overlap_chat_done =
     sendChatMessage clk0 clk1 (\<lambda>req. Resolved (success_envelope (example_data [] 3)))
       (setChatInput ''Delete promotional emails''
          (setActiveTab ''chat'' (fst (runCleanupNow_begin initial_state))))"

definition overlap_both_done :: app_state where
  "overlap_both_done =
     runCleanupNow_resume clk2 initial_state
       (Resolved (success_envelope (example_summary 42 17))) overlap_chat_done"

text \<open>The same session with a query typed into the input.\<close>

definition typed_query :: app_state where
  "typed_query = setChatInput ''Show promotional emails'' one_selected"

text \<open>A chat request, and a periodic request, still outstanding.\<close>

definition busy_chat :: app_state where
  "busy_chat = one_selected\<lparr>chatLoading := True, chatInput := ''Show social emails''\<rparr>"

definition busy_periodic :: app_state where
  "busy_periodic = initial_state\<lparr>periodicLoading := True\<rparr>"

text \<open>
  From the first render: a query that yields one preview, the preview is selected, and a
  second query that succeeds with no previews.
\<close>

definition stale_selection_trace :: app_state where
  "stale_selection_trace =
     sendChatMessage clk1 clk1 (\<lambda>req. Resolved (success_envelope (example_data [] 0)))
       (setChatInput ''Show social emails''
          (toggleEmailSelection ''e1''
             (sendChatMessage clk0 clk0
                (\<lambda>req. Resolved (success_envelope (example_data [example_preview ''e1''] 0)))
                (setChatInput ''Show promotional emails'' initial_state))))"

definition sixty_days :: app_state where
  "sixty_days = initial_state\<lparr>settings := default_settings\<lparr>ageThreshold := 60\<rparr>\<rparr>"

text \<open>A store whose settings item is not JSON.\<close>

definition corrupt_store :: storage where
  "corrupt_store =
     \<lparr>items = [''gmail_cleanup_settings'' \<mapsto> OtherText ''{promotional:''],
      read_throws = False, write_throws = False\<rparr>"

text \<open>The calls number 0 to \<open>n - 1\<close>, the count of each being its number.\<close>

definition numbered_calls :: "nat \<Rightarrow> log_call list" where
  "numbered_calls n =
     map (\<lambda>i. \<lparr>lc_clock = \<lparr>date_now = i, iso_now = ''1970-01-01T00:00:00.000Z''\<rparr>,
               lc_action = ''Scheduled cleanup executed'', lc_count = int i,
               lc_status = Success\<rparr>) [0..<n]"

text \<open>An envelope whose summary reports another number of processed emails.\<close>

definition with_processed :: "int \<Rightarrow> PeriodicResponse envelope \<Rightarrow> PeriodicResponse envelope" where
  "with_processed p result =
     result\<lparr>env_response := (env_response result)
       \<lparr>resp_result :=
          map_option (\<lambda>d. d\<lparr>cleanup_summary := (cleanup_summary d)\<lparr>total_emails_processed := p\<rparr>\<rparr>)
            (resp_result (env_response result))\<rparr>\<rparr>"

section \<open>Properties\<close>

subsection \<open>Lists as sets, and the cap of the log\<close>

lemma take_append_take: "take n (xs @ take n ys) = take n (xs @ ys)"
  by (simp add: min_def)

lemma foldl_set_add_distinct: "distinct (acc @ xs) \<Longrightarrow> foldl set_add acc xs = acc @ xs"
  by (induction xs arbitrary: acc) (auto simp: set_add_def)

lemma new_Set_distinct: "distinct xs \<Longrightarrow> new_Set xs = xs"
  using foldl_set_add_distinct [of "[]" xs] by (simp add: new_Set_def)

lemma set_foldl_set_add: "set (foldl set_add acc xs) = set acc \<union> set xs"
  by (induction xs arbitrary: acc) (auto simp: set_add_def)

lemma set_new_Set: "set (new_Set xs) = set xs"
  by (simp add: new_Set_def set_foldl_set_add)

lemma distinct_foldl_set_add: "distinct acc \<Longrightarrow> distinct (foldl set_add acc xs)"
  by (induction xs arbitrary: acc) (auto simp: set_add_def)

lemma settings_roundtrip: "settings_of_json (json_of_settings c) = Some c"
  by (cases "frequency c")
     (simp_all add: json_of_settings_def frequency_text_def frequency_of_text_def)

lemma addActivityLog_log:
  "activityLog (addActivityLog clk c act n st s) =
     take 50 (\<lparr>al_id = show_nat (date_now clk), al_timestamp = iso_now clk,
               al_action = act, emailsDeleted = n, al_status = st\<rparr> # activityLog c)"
  by (simp add: addActivityLog_def Let_def)

lemma appends_log:
  "activityLog (appends es s) =
     (if es = [] then activityLog s else take 50 (rev (map log_entry es) @ activityLog s))"
proof (induction es arbitrary: s)
  case Nil
  show ?case by simp
next
  case (Cons e es)
  let ?s1 = "addActivityLog (lc_clock e) s (lc_action e) (lc_count e) (lc_status e) s"
  have step: "activityLog ?s1 = take 50 (log_entry e # activityLog s)"
    by (simp add: addActivityLog_log log_entry_def)
  show ?case
  proof (cases "es = []")
    case True
    with step show ?thesis by simp
  next
    case False
    have "take 50 (rev (map log_entry es) @ take 50 (log_entry e # activityLog s)) =
          take 50 (rev (map log_entry es) @ log_entry e # activityLog s)"
      using take_append_take [of 50 "rev (map log_entry es)" "log_entry e # activityLog s"]
      by simp
    with False Cons.IH [of ?s1] step show ?thesis by simp
  qed
qed

subsection \<open>Selection\<close>

text \<open>
  Toggling flips the membership of the id toggled and of no other, and keeps the
  selection free of repetitions.
\<close>

lemma toggle_member:
  "x \<in> set (selectedEmails (toggleEmailSelection i s)) \<longleftrightarrow>
     (if x = i then x \<notin> set (selectedEmails s) else x \<in> set (selectedEmails s))"
  by (auto simp: toggleEmailSelection_def set_add_def set_delete_def)

lemma toggle_distinct:
  "distinct (selectedEmails s) \<Longrightarrow> distinct (selectedEmails (toggleEmailSelection i s))"
  by (auto simp: toggleEmailSelection_def set_add_def set_delete_def)

text \<open>
  After a run of toggles an id has changed sides exactly when it was toggled an odd
  number of times; from the empty selection, membership is the parity of its toggles.
\<close>

lemma toggles_parity:
  "x \<in> set (selectedEmails (toggles ts s)) \<longleftrightarrow>
     (x \<in> set (selectedEmails s)) \<noteq> odd (count_list ts x)"
  by (induction ts arbitrary: s) (auto simp: toggle_member)

lemma toggles_previews: "emailPreviews (toggles ts s) = emailPreviews s"
  by (induction ts arbitrary: s) (auto simp: toggleEmailSelection_def)

text \<open>
  Toggles of ids of the batch (the only ones the page offers), \<open>selectAllEmails\<close>, and
  the two places that reset the selection keep the selection within the batch.
\<close>

lemma toggles_within_batch:
  assumes "set (selectedEmails s) \<subseteq> ep_id ` set (emailPreviews s)"
    and "set ts \<subseteq> ep_id ` set (emailPreviews s)"
  shows "set (selectedEmails (toggles ts s)) \<subseteq> ep_id ` set (emailPreviews (toggles ts s))"
proof
  fix x assume "x \<in> set (selectedEmails (toggles ts s))"
  then have "x \<in> set (selectedEmails s) \<or> x \<in> set ts"
    by (auto simp: toggles_parity intro: ccontr)
  with assms show "x \<in> ep_id ` set (emailPreviews (toggles ts s))"
    by (auto simp: toggles_previews)
qed

lemma selectAllEmails_within_batch:
  "set (selectedEmails (selectAllEmails s)) \<subseteq> ep_id ` set (emailPreviews (selectAllEmails s))"
  by (auto simp: selectAllEmails_def set_new_Set)

lemma new_batch_resets_selection:
  assumes "env_success result" and "resp_status (env_response result) = ''success''"
    and "resp_result (env_response result) = Some data" and "email_preview data \<noteq> []"
  shows "selectedEmails (sendChatMessage_resume clk c (Resolved result) s) = [] \<and>
         emailPreviews (sendChatMessage_resume clk c (Resolved result) s) = email_preview data"
  using assms
  by (simp add: sendChatMessage_resume_def sendChatMessage_try_def addActivityLog_def Let_def)

text \<open>
  Claim C1. The selection's membership is the parity of the toggles (lemma
  \<open>toggles_parity\<close>), and the operations above keep it within the ids of the batch. The
  success path of \<open>sendChatMessage\<close> does not: when the response carries no previews,
  the batch is replaced by the empty one and the selection is left as it was, where the
  branch for a non-empty batch resets it. From the first render, after a query that
  shows the preview \<open>e1\<close>, its selection, and a second query that finds nothing, the
  batch is empty and \<open>e1\<close> is still selected.
\<close>

theorem C1_selection_survives_empty_batch:
  "emailPreviews stale_selection_trace = []
   \<and> selectedEmails stale_selection_trace = [''e1'']
   \<and> \<not> set (selectedEmails stale_selection_trace)
          \<subseteq> ep_id ` set (emailPreviews stale_selection_trace)"
  by (simp add: stale_selection_trace_def sendChatMessage_def sendChatMessage_begin_def
      sendChatMessage_resume_def sendChatMessage_try_def setChatInput_def initial_state_def
      success_envelope_def example_data_def js_trim_def is_space_def Let_def
      toggleEmailSelection_def set_add_def example_preview_def)

subsection \<open>In-flight gates\<close>

text \<open>
  Claim C2, as the code has it. While the chat gate is set, \<open>sendChatMessage\<close> itself
  returns at once, sending nothing and changing nothing, and so do the send button, the
  Enter key and the delete button, which are disabled; while the periodic gate is set,
  the two buttons of the periodic runner are disabled and dispatch nothing. Nothing is
  queued: the state is the same and no request goes out. Every handler that sends a
  request sets its gate. The handlers \<open>deleteSelectedEmails\<close>, \<open>runCleanupNow\<close> and
  \<open>testRunCleanup\<close> do not read the gate themselves.
\<close>

theorem C2_in_flight_gates:
  "(chatLoading s \<longrightarrow>
      sendChatMessage_begin clk s = (s, None) \<and> click_send clk s = (s, None) \<and>
      press_enter clk s = (s, None) \<and> click_delete_selected s = (s, None))
   \<and> (periodicLoading s \<longrightarrow>
      click_run_cleanup_now s = (s, None) \<and> click_test_run s = (s, None))
   \<and> (snd (sendChatMessage_begin clk s) \<noteq> None \<longrightarrow>
        chatLoading (fst (sendChatMessage_begin clk s)))
   \<and> (snd (deleteSelectedEmails_begin s) \<noteq> None \<longrightarrow>
        chatLoading (fst (deleteSelectedEmails_begin s)))
   \<and> periodicLoading (fst (runCleanupNow_begin s))
   \<and> periodicLoading (fst (testRunCleanup_begin s))"
  by (simp add: sendChatMessage_begin_def click_send_def press_enter_def
      click_delete_selected_def click_run_cleanup_now_def click_test_run_def
      deleteSelectedEmails_begin_def runCleanupNow_begin_def testRunCleanup_begin_def Let_def)

text \<open>The gates at work on a session with an outstanding request.\<close>

theorem C2_in_flight_gates_witness:
  "chatLoading busy_chat \<and> periodicLoading busy_periodic
   \<and> sendChatMessage_begin clk0 busy_chat = (busy_chat, None)
   \<and> click_delete_selected busy_chat = (busy_chat, None)
   \<and> click_run_cleanup_now busy_periodic = (busy_periodic, None)
   \<and> click_test_run busy_periodic = (busy_periodic, None)"
proof -
  have h1: "chatLoading busy_chat" by (simp add: busy_chat_def)
  have h2: "periodicLoading busy_periodic" by (simp add: busy_periodic_def)
  from h1 h2 C2_in_flight_gates [of busy_chat clk0] C2_in_flight_gates [of busy_periodic clk0]
  show ?thesis by blast
qed

text \<open>
  Invoked with their gate set, the handlers \<open>deleteSelectedEmails\<close>, \<open>runCleanupNow\<close>
  and \<open>testRunCleanup\<close> send a request all the same.
\<close>

theorem C2_handlers_not_gated:
  "chatLoading busy_chat \<and> snd (deleteSelectedEmails_begin busy_chat) \<noteq> None
   \<and> periodicLoading busy_periodic \<and> snd (runCleanupNow_begin busy_periodic) \<noteq> None
   \<and> snd (testRunCleanup_begin busy_periodic) \<noteq> None"
  by (simp add: busy_chat_def busy_periodic_def one_selected_def initial_state_def
      deleteSelectedEmails_begin_def runCleanupNow_begin_def testRunCleanup_begin_def)

subsection \<open>Transport failure\<close>

text \<open>
  Claim C3, as the code has it. When the gateway call rejects, every entry point puts
  the fixed text \<open>Network error. Please try again.\<close> into its error slot.
  \<open>sendChatMessage\<close>, \<open>deleteSelectedEmails\<close> and \<open>testRunCleanup\<close> leave the activity
  log and the store as they were; \<open>runCleanupNow\<close> records one entry
  \<open>Scheduled cleanup failed\<close> with count 0 and status error.
\<close>

theorem C3_transport_failure:
  "chatError (sendChatMessage_resume clk c Rejected s) = Some ''Network error. Please try again.''
   \<and> activityLog (sendChatMessage_resume clk c Rejected s) = activityLog s
   \<and> localStorage (sendChatMessage_resume clk c Rejected s) = localStorage s
   \<and> chatError (deleteSelectedEmails_resume clk c Rejected s) =
       Some ''Network error. Please try again.''
   \<and> activityLog (deleteSelectedEmails_resume clk c Rejected s) = activityLog s
   \<and> localStorage (deleteSelectedEmails_resume clk c Rejected s) = localStorage s
   \<and> periodicError (testRunCleanup_resume clk c Rejected s) =
       Some ''Network error. Please try again.''
   \<and> activityLog (testRunCleanup_resume clk c Rejected s) = activityLog s
   \<and> localStorage (testRunCleanup_resume clk c Rejected s) = localStorage s
   \<and> periodicError (runCleanupNow_resume clk c Rejected s) =
       Some ''Network error. Please try again.''
   \<and> activityLog (runCleanupNow_resume clk c Rejected s) =
       take 50 (\<lparr>al_id = show_nat (date_now clk), al_timestamp = iso_now clk,
                 al_action = ''Scheduled cleanup failed'', emailsDeleted = 0,
                 al_status = Error\<rparr> # activityLog c)"
  by (simp add: sendChatMessage_resume_def sendChatMessage_catch_def
      deleteSelectedEmails_resume_def testRunCleanup_resume_def runCleanupNow_resume_def
      runCleanupNow_catch_def addActivityLog_def network_error_def Let_def)

text \<open>
  From the first render, a \<open>runCleanupNow\<close> whose gateway call rejects leaves one entry
  in a log that was empty.
\<close>

theorem C3_run_now_logs_transport_failure:
  "activityLog (fst (runCleanupNow_begin initial_state)) = []
   \<and> length (activityLog (runCleanupNow_resume clk1 initial_state Rejected
        (fst (runCleanupNow_begin initial_state)))) = 1"
  by (simp add: runCleanupNow_begin_def runCleanupNow_resume_def runCleanupNow_catch_def
      addActivityLog_def initial_state_def Let_def)

subsection \<open>Periodic runs\<close>

text \<open>
  Claim C4. On a successful response \<open>runCleanupNow\<close> prepends one entry whose count is
  \<open>total_emails_deleted\<close> of the summary, with status success, and switches to the
  dashboard; \<open>testRunCleanup\<close> prepends one entry whose count is 0, whose label carries
  \<open>total_emails_processed\<close>, with status success, and stays on its tab. Neither count
  is read from \<open>total_emails_processed\<close>: another value of that field leaves the log
  of \<open>runCleanupNow\<close> and the counts in the log of \<open>testRunCleanup\<close> the same.
\<close>

theorem C4_periodic_success_entries:
  assumes "env_success result" and "resp_status (env_response result) = ''success''"
    and "resp_result (env_response result) = Some data"
  shows "activityLog (runCleanupNow_resume clk c (Resolved result) s) =
           take 50 (\<lparr>al_id = show_nat (date_now clk), al_timestamp = iso_now clk,
                     al_action = ''Scheduled cleanup executed'',
                     emailsDeleted = total_emails_deleted (cleanup_summary data),
                     al_status = Success\<rparr> # activityLog c)
       \<and> activeTab (runCleanupNow_resume clk c (Resolved result) s) = ''dashboard''
       \<and> activityLog (testRunCleanup_resume clk c (Resolved result) s) =
           take 50 (\<lparr>al_id = show_nat (date_now clk), al_timestamp = iso_now clk,
                     al_action = ''Test run: would delete '' @
                       show_int (total_emails_processed (cleanup_summary data)) @ '' emails'',
                     emailsDeleted = 0, al_status = Success\<rparr> # activityLog c)
       \<and> activeTab (testRunCleanup_resume clk c (Resolved result) s) = activeTab s
       \<and> activityLog (runCleanupNow_resume clk c (Resolved (with_processed p result)) s) =
           activityLog (runCleanupNow_resume clk c (Resolved result) s)
       \<and> map emailsDeleted
           (activityLog (testRunCleanup_resume clk c (Resolved (with_processed p result)) s)) =
         map emailsDeleted (activityLog (testRunCleanup_resume clk c (Resolved result) s))"
  using assms
  by (simp add: runCleanupNow_resume_def runCleanupNow_try_def testRunCleanup_resume_def
      testRunCleanup_try_def addActivityLog_def Let_def with_processed_def take_map)

text \<open>
  A summary of 42 processed and 17 deleted emails: the real run records 17, the dry run
  records 0 and names 42.
\<close>

theorem C4_periodic_success_entries_witness:
  "activityLog (runCleanupNow_resume clk1 initial_state
       (Resolved (success_envelope (example_summary 42 17))) initial_state) =
     [\<lparr>al_id = ''2000'', al_timestamp = ''1970-01-01T00:00:02.000Z'',
       al_action = ''Scheduled cleanup executed'', emailsDeleted = 17, al_status = Success\<rparr>]
   \<and> activityLog (testRunCleanup_resume clk1 initial_state
       (Resolved (success_envelope (example_summary 42 17))) initial_state) =
     [\<lparr>al_id = ''2000'', al_timestamp = ''1970-01-01T00:00:02.000Z'',
       al_action = ''Test run: would delete 42 emails'', emailsDeleted = 0,
       al_status = Success\<rparr>]"
  using C4_periodic_success_entries [of "success_envelope (example_summary 42 17)"
      "example_summary 42 17" clk1 initial_state initial_state 42]
  by (simp add: success_envelope_def example_summary_def clk1_def initial_state_def
      show_int_def show_nat.simps digit_char_def)

subsection \<open>Deleting the selection\<close>

text \<open>
  Claim C5. With an empty selection \<open>deleteSelectedEmails\<close> returns at once: no
  request, no change. With a non-empty one it sets the gate, clears the error slot
  and sends one request listing the selected ids. On a successful response the whole
  invocation prepends one entry whose label carries the number of ids selected and
  whose count is \<open>emails_deleted\<close> of the response, hands the list to the store (which
  holds it unless the write throws), removes from the batch exactly the previews whose
  id was selected, empties the selection, appends one assistant message and clears the
  gate; nothing else changes. On a failure the invocation changes the error slot and
  nothing else: the batch, the selection, the log, the store and the transcript are
  what they were. The part after the \<open>await\<close> does the same whatever happened while
  the request was outstanding, the selection and the log it reads being those of the
  render in which the user asked for the deletion.
\<close>

theorem C5_delete_selected:
  "(selectedEmails s = [] \<longrightarrow>
      deleteSelectedEmails_begin s = (s, None) \<and> deleteSelectedEmails clk gw s = s)
   \<and> (selectedEmails s \<noteq> [] \<longrightarrow>
      deleteSelectedEmails_begin s =
        (s\<lparr>chatLoading := True, chatError := None\<rparr>, Some (delete_request s)))
   \<and> (env_success result \<and> resp_status (env_response result) = ''success'' \<and>
       resp_result (env_response result) = Some data \<longrightarrow>
       deleteSelectedEmails_resume clk c (Resolved result) s =
         s\<lparr>activityLog :=
             take 50 (\<lparr>al_id = show_nat (date_now clk), al_timestamp = iso_now clk,
                       al_action = ''Deleted '' @ show_nat (length (selectedEmails c)) @
                                   '' selected emails'',
                       emailsDeleted = emails_deleted data, al_status = Success\<rparr>
                      # activityLog c),
           localStorage :=
             saveActivityLog
               (take 50 (\<lparr>al_id = show_nat (date_now clk), al_timestamp = iso_now clk,
                       al_action = ''Deleted '' @ show_nat (length (selectedEmails c)) @
                                   '' selected emails'',
                       emailsDeleted = emails_deleted data, al_status = Success\<rparr>
                      # activityLog c))
               (localStorage s),
           emailPreviews := filter (\<lambda>e. ep_id e \<notin> set (selectedEmails c)) (emailPreviews s),
           selectedEmails := [],
           chatMessages := chatMessages s @
             [\<lparr>cm_id = show_nat (date_now clk), cm_role = Assistant,
               content = ''Successfully deleted '' @ show_int (emails_deleted data) @ '' emails.'',
               cm_timestamp = iso_now clk\<rparr>],
           chatLoading := False\<rparr>)
   \<and> (agent_failure out \<longrightarrow>
       emailPreviews (deleteSelectedEmails_resume clk c out s) = emailPreviews s \<and>
       selectedEmails (deleteSelectedEmails_resume clk c out s) = selectedEmails s \<and>
       activityLog (deleteSelectedEmails_resume clk c out s) = activityLog s \<and>
       localStorage (deleteSelectedEmails_resume clk c out s) = localStorage s \<and>
       chatMessages (deleteSelectedEmails_resume clk c out s) = chatMessages s)
   \<and> (selectedEmails s \<noteq> [] \<and> gw (delete_request s) = Resolved result \<and>
       env_success result \<and> resp_status (env_response result) = ''success'' \<and>
       resp_result (env_response result) = Some data \<longrightarrow>
       deleteSelectedEmails clk gw s =
         s\<lparr>activityLog :=
             take 50 (\<lparr>al_id = show_nat (date_now clk), al_timestamp = iso_now clk,
                       al_action = ''Deleted '' @ show_nat (length (selectedEmails s)) @
                                   '' selected emails'',
                       emailsDeleted = emails_deleted data, al_status = Success\<rparr>
                      # activityLog s),
           localStorage :=
             saveActivityLog
               (take 50 (\<lparr>al_id = show_nat (date_now clk), al_timestamp = iso_now clk,
                       al_action = ''Deleted '' @ show_nat (length (selectedEmails s)) @
                                   '' selected emails'',
                       emailsDeleted = emails_deleted data, al_status = Success\<rparr>
                      # activityLog s))
               (localStorage s),
           emailPreviews := filter (\<lambda>e. ep_id e \<notin> set (selectedEmails s)) (emailPreviews s),
           selectedEmails := [],
           chatMessages := chatMessages s @
             [\<lparr>cm_id = show_nat (date_now clk), cm_role = Assistant,
               content = ''Successfully deleted '' @ show_int (emails_deleted data) @ '' emails.'',
               cm_timestamp = iso_now clk\<rparr>],
           chatError := None,
           chatLoading := False\<rparr> \<and>
       (\<not> write_throws (localStorage s) \<longrightarrow>
          items (localStorage (deleteSelectedEmails clk gw s)) ''gmail_activity_log'' =
            Some (JSON_stringify (json_of_logs (activityLog (deleteSelectedEmails clk gw s))))))
   \<and> (selectedEmails s \<noteq> [] \<and> agent_failure (gw (delete_request s)) \<longrightarrow>
       deleteSelectedEmails clk gw s =
         s\<lparr>chatError := Some (delete_error_text (gw (delete_request s))),
           chatLoading := False\<rparr>)"
proof -
  have a: "selectedEmails s = [] \<longrightarrow>
      deleteSelectedEmails_begin s = (s, None) \<and> deleteSelectedEmails clk gw s = s"
    by (simp add: deleteSelectedEmails_begin_def deleteSelectedEmails_def)
  have b: "selectedEmails s \<noteq> [] \<longrightarrow>
      deleteSelectedEmails_begin s =
        (s\<lparr>chatLoading := True, chatError := None\<rparr>, Some (delete_request s))"
    by (simp add: deleteSelectedEmails_begin_def delete_request_def)
  have c: "env_success result \<and> resp_status (env_response result) = ''success'' \<and>
       resp_result (env_response result) = Some data \<longrightarrow>
       deleteSelectedEmails_resume clk c (Resolved result) s =
         s\<lparr>activityLog :=
             take 50 (\<lparr>al_id = show_nat (date_now clk), al_timestamp = iso_now clk,
                       al_action = ''Deleted '' @ show_nat (length (selectedEmails c)) @
                                   '' selected emails'',
                       emailsDeleted = emails_deleted data, al_status = Success\<rparr>
                      # activityLog c),
           localStorage :=
             saveActivityLog
               (take 50 (\<lparr>al_id = show_nat (date_now clk), al_timestamp = iso_now clk,
                       al_action = ''Deleted '' @ show_nat (length (selectedEmails c)) @
                                   '' selected emails'',
                       emailsDeleted = emails_deleted data, al_status = Success\<rparr>
                      # activityLog c))
               (localStorage s),
           emailPreviews := filter (\<lambda>e. ep_id e \<notin> set (selectedEmails c)) (emailPreviews s),
           selectedEmails := [],
           chatMessages := chatMessages s @
             [\<lparr>cm_id = show_nat (date_now clk), cm_role = Assistant,
               content = ''Successfully deleted '' @ show_int (emails_deleted data) @ '' emails.'',
               cm_timestamp = iso_now clk\<rparr>],
           chatLoading := False\<rparr>"
    by (simp add: deleteSelectedEmails_resume_def deleteSelectedEmails_try_def
        addActivityLog_def Let_def)
  have d: "agent_failure out \<longrightarrow>
       emailPreviews (deleteSelectedEmails_resume clk c out s) = emailPreviews s \<and>
       selectedEmails (deleteSelectedEmails_resume clk c out s) = selectedEmails s \<and>
       activityLog (deleteSelectedEmails_resume clk c out s) = activityLog s \<and>
       localStorage (deleteSelectedEmails_resume clk c out s) = localStorage s \<and>
       chatMessages (deleteSelectedEmails_resume clk c out s) = chatMessages s"
    by (auto simp: agent_failure_def deleteSelectedEmails_resume_def
        deleteSelectedEmails_try_def split: outcome.splits if_splits)
  have e: "selectedEmails s \<noteq> [] \<and> gw (delete_request s) = Resolved result \<and>
       env_success result \<and> resp_status (env_response result) = ''success'' \<and>
       resp_result (env_response result) = Some data \<longrightarrow>
       deleteSelectedEmails clk gw s =
         s\<lparr>activityLog :=
             take 50 (\<lparr>al_id = show_nat (date_now clk), al_timestamp = iso_now clk,
                       al_action = ''Deleted '' @ show_nat (length (selectedEmails s)) @
                                   '' selected emails'',
                       emailsDeleted = emails_deleted data, al_status = Success\<rparr>
                      # activityLog s),
           localStorage :=
             saveActivityLog
               (take 50 (\<lparr>al_id = show_nat (date_now clk), al_timestamp = iso_now clk,
                       al_action = ''Deleted '' @ show_nat (length (selectedEmails s)) @
                                   '' selected emails'',
                       emailsDeleted = emails_deleted data, al_status = Success\<rparr>
                      # activityLog s))
               (localStorage s),
           emailPreviews := filter (\<lambda>e. ep_id e \<notin> set (selectedEmails s)) (emailPreviews s),
           selectedEmails := [],
           chatMessages := chatMessages s @
             [\<lparr>cm_id = show_nat (date_now clk), cm_role = Assistant,
               content = ''Successfully deleted '' @ show_int (emails_deleted data) @ '' emails.'',
               cm_timestamp = iso_now clk\<rparr>],
           chatError := None,
           chatLoading := False\<rparr> \<and>
       (\<not> write_throws (localStorage s) \<longrightarrow>
          items (localStorage (deleteSelectedEmails clk gw s)) ''gmail_activity_log'' =
            Some (JSON_stringify (json_of_logs (activityLog (deleteSelectedEmails clk gw s)))))"
    by (simp add: deleteSelectedEmails_def deleteSelectedEmails_begin_def
        delete_request_def deleteSelectedEmails_resume_def deleteSelectedEmails_try_def
        addActivityLog_def Let_def saveActivityLog_def setItem_def)
  have f: "selectedEmails s \<noteq> [] \<and> agent_failure (gw (delete_request s)) \<longrightarrow>
       deleteSelectedEmails clk gw s =
         s\<lparr>chatError := Some (delete_error_text (gw (delete_request s))),
           chatLoading := False\<rparr>"
    by (auto simp: deleteSelectedEmails_def deleteSelectedEmails_begin_def
        delete_request_def agent_failure_def delete_error_text_def
        deleteSelectedEmails_resume_def deleteSelectedEmails_try_def
        split: outcome.splits option.splits if_splits)
  from a b c d e f show ?thesis by blast
qed

text \<open>
  Three of five previews are selected and the agent reports two deletions: the three
  leave the batch, the selection is empty, the entry keeps both numbers and is in the
  store. When the gateway rejects, only the error slot differs. With nothing selected
  nothing happens.
\<close>

theorem C5_delete_selected_witness:
  "selectedEmails five_previews \<noteq> [] \<and> selectedEmails initial_state = []
   \<and> map ep_id (emailPreviews (deleteSelectedEmails clk1 gw_two_deleted five_previews)) =
       [''e2'', ''e4'']
   \<and> selectedEmails (deleteSelectedEmails clk1 gw_two_deleted five_previews) = []
   \<and> activityLog (deleteSelectedEmails clk1 gw_two_deleted five_previews) =
      [\<lparr>al_id = ''2000'', al_timestamp = ''1970-01-01T00:00:02.000Z'',
        al_action = ''Deleted 3 selected emails'', emailsDeleted = 2, al_status = Success\<rparr>]
   \<and> map content (chatMessages (deleteSelectedEmails clk1 gw_two_deleted five_previews)) =
      [''Successfully deleted 2 emails.'']
   \<and> items (localStorage (deleteSelectedEmails clk1 gw_two_deleted five_previews))
        ''gmail_activity_log'' =
      Some (JsonText (JArr [JObj
        [(''id'', JStr ''2000''), (''timestamp'', JStr ''1970-01-01T00:00:02.000Z''),
         (''action'', JStr ''Deleted 3 selected emails''), (''emailsDeleted'', JNum 2),
         (''status'', JStr ''success'')]]))
   \<and> snd (deleteSelectedEmails_begin five_previews) =
      Some \<lparr>req_message = ''Delete these specific emails: e1, e3, e5'',
            req_agent = ''69787126a75ef8a94cc4f0d1''\<rparr>
   \<and> deleteSelectedEmails clk1 gw_rejects five_previews =
      five_previews\<lparr>chatError := Some ''Network error. Please try again.''\<rparr>
   \<and> deleteSelectedEmails clk1 gw_two_deleted initial_state = initial_state"
proof -
  let ?r = "success_envelope (example_data [] 2)"
  have h0: "selectedEmails five_previews \<noteq> []" "selectedEmails initial_state = []"
    by (simp_all add: five_previews_def initial_state_def)
  have h1: "gw_two_deleted (delete_request five_previews) = Resolved ?r \<and>
      env_success ?r \<and> resp_status (env_response ?r) = ''success'' \<and>
      resp_result (env_response ?r) = Some (example_data [] 2)"
    by (simp add: success_envelope_def gw_two_deleted_def)
  have h2: "agent_failure (gw_rejects (delete_request five_previews))"
    by (simp add: agent_failure_def gw_rejects_def)
  have h3: "\<not> write_throws (localStorage five_previews)"
    by (simp add: five_previews_def initial_state_def empty_storage_def)
  have h4: "delete_error_text (gw_rejects (delete_request five_previews)) =
      ''Network error. Please try again.''"
    by (simp add: delete_error_text_def gw_rejects_def network_error_def)
  have h5: "chatLoading five_previews = False"
    by (simp add: five_previews_def initial_state_def)
  note t1 = C5_delete_selected [where s = five_previews and gw = gw_two_deleted
      and result = ?r and data = "example_data [] 2" and clk = clk1 and c = five_previews
      and out = Rejected]
  note t2 = C5_delete_selected [where s = five_previews and gw = gw_rejects
      and result = ?r and data = "example_data [] 2" and clk = clk1 and c = five_previews
      and out = Rejected]
  note t3 = C5_delete_selected [where s = initial_state and gw = gw_two_deleted
      and result = ?r and data = "example_data [] 2" and clk = clk1 and c = five_previews
      and out = Rejected]
  from t1 h0 h1 have ok: "deleteSelectedEmails clk1 gw_two_deleted five_previews =
      five_previews\<lparr>activityLog :=
             take 50 (\<lparr>al_id = show_nat (date_now clk1), al_timestamp = iso_now clk1,
                       al_action = ''Deleted '' @
                         show_nat (length (selectedEmails five_previews)) @
                         '' selected emails'',
                       emailsDeleted = emails_deleted (example_data [] 2),
                       al_status = Success\<rparr>
                      # activityLog five_previews),
           localStorage :=
             saveActivityLog
               (take 50 (\<lparr>al_id = show_nat (date_now clk1), al_timestamp = iso_now clk1,
                       al_action = ''Deleted '' @
                         show_nat (length (selectedEmails five_previews)) @
                         '' selected emails'',
                       emailsDeleted = emails_deleted (example_data [] 2),
                       al_status = Success\<rparr>
                      # activityLog five_previews))
               (localStorage five_previews),
           emailPreviews := filter (\<lambda>e. ep_id e \<notin> set (selectedEmails five_previews))
                              (emailPreviews five_previews),
           selectedEmails := [],
           chatMessages := chatMessages five_previews @
             [\<lparr>cm_id = show_nat (date_now clk1), cm_role = Assistant,
               content = ''Successfully deleted '' @
                 show_int (emails_deleted (example_data [] 2)) @ '' emails.'',
               cm_timestamp = iso_now clk1\<rparr>],
           chatError := None,
           chatLoading := False\<rparr>"
    by blast
  from t1 h0 h1 h3 have st: "items (localStorage
        (deleteSelectedEmails clk1 gw_two_deleted five_previews)) ''gmail_activity_log'' =
      Some (JSON_stringify (json_of_logs
        (activityLog (deleteSelectedEmails clk1 gw_two_deleted five_previews))))"
    by blast
  have w1: "map ep_id (emailPreviews (deleteSelectedEmails clk1 gw_two_deleted five_previews)) =
       [''e2'', ''e4'']"
    unfolding ok by (simp add: five_previews_def initial_state_def example_preview_def)
  have w2: "selectedEmails (deleteSelectedEmails clk1 gw_two_deleted five_previews) = []"
    unfolding ok by simp
  have w3: "activityLog (deleteSelectedEmails clk1 gw_two_deleted five_previews) =
      [\<lparr>al_id = ''2000'', al_timestamp = ''1970-01-01T00:00:02.000Z'',
        al_action = ''Deleted 3 selected emails'', emailsDeleted = 2, al_status = Success\<rparr>]"
    unfolding ok
    by (simp add: five_previews_def initial_state_def example_data_def clk1_def
        show_nat.simps digit_char_def)
  have w4: "map content (chatMessages (deleteSelectedEmails clk1 gw_two_deleted five_previews)) =
      [''Successfully deleted 2 emails.'']"
    unfolding ok
    by (simp add: five_previews_def initial_state_def example_data_def show_int_def
        show_nat.simps digit_char_def)
  have w5: "items (localStorage (deleteSelectedEmails clk1 gw_two_deleted five_previews))
        ''gmail_activity_log'' =
      Some (JsonText (JArr [JObj
        [(''id'', JStr ''2000''), (''timestamp'', JStr ''1970-01-01T00:00:02.000Z''),
         (''action'', JStr ''Deleted 3 selected emails''), (''emailsDeleted'', JNum 2),
         (''status'', JStr ''success'')]]))"
    unfolding st w3
    by (simp add: JSON_stringify_def json_of_logs_def json_of_log_def status_text_def)
  from t1 h0 have "deleteSelectedEmails_begin five_previews =
      (five_previews\<lparr>chatLoading := True, chatError := None\<rparr>,
       Some (delete_request five_previews))"
    by blast
  then have w6: "snd (deleteSelectedEmails_begin five_previews) =
      Some \<lparr>req_message = ''Delete these specific emails: e1, e3, e5'',
            req_agent = ''69787126a75ef8a94cc4f0d1''\<rparr>"
    by (simp add: delete_request_def five_previews_def RANDOM_AGENT_ID_def)
  from t2 h0 h2 have "deleteSelectedEmails clk1 gw_rejects five_previews =
      five_previews\<lparr>chatError :=
          Some (delete_error_text (gw_rejects (delete_request five_previews))),
        chatLoading := False\<rparr>"
    by blast
  with h4 h5 have w7: "deleteSelectedEmails clk1 gw_rejects five_previews =
      five_previews\<lparr>chatError := Some ''Network error. Please try again.''\<rparr>"
    by (simp add: five_previews_def initial_state_def)
  from t3 h0 have w8: "deleteSelectedEmails clk1 gw_two_deleted initial_state = initial_state"
    by blast
  from h0 w1 w2 w3 w4 w5 w6 w7 w8 show ?thesis by blast
qed

subsection \<open>The activity log\<close>

text \<open>
  \<open>addActivityLog\<close> puts the new entry in front of the log it reads and keeps the first
  50 entries, so the log never holds more than 50; the same list is handed to
  \<open>saveActivityLog\<close>, and the store holds its serialisation afterwards unless the write
  throws. After a run of appends each made from the render that follows the one before,
  the log is the first 50 of the new entries, newest first, followed by the old ones in
  their order: what falls off is the oldest.
\<close>

lemma activity_log_bounded:
  "activityLog (addActivityLog clk c act n st s) =
     take 50 (\<lparr>al_id = show_nat (date_now clk), al_timestamp = iso_now clk,
               al_action = act, emailsDeleted = n, al_status = st\<rparr> # activityLog c)
   \<and> length (activityLog (addActivityLog clk c act n st s)) \<le> 50
   \<and> localStorage (addActivityLog clk c act n st s) =
       saveActivityLog (activityLog (addActivityLog clk c act n st s)) (localStorage s)
   \<and> (\<not> write_throws (localStorage s) \<longrightarrow>
        getItem (localStorage (addActivityLog clk c act n st s)) ''gmail_activity_log'' =
          (if read_throws (localStorage s) then Inl StorageError
           else Inr (Some (JSON_stringify
                  (json_of_logs (activityLog (addActivityLog clk c act n st s)))))))
   \<and> activityLog (appends es s) =
       (if es = [] then activityLog s
        else take 50 (rev (map log_entry es) @ activityLog s))
   \<and> (es \<noteq> [] \<longrightarrow> length (activityLog (appends es s)) \<le> 50)"
proof -
  have a: "activityLog (addActivityLog clk c act n st s) =
     take 50 (\<lparr>al_id = show_nat (date_now clk), al_timestamp = iso_now clk,
               al_action = act, emailsDeleted = n, al_status = st\<rparr> # activityLog c)"
    by (rule addActivityLog_log)
  have b: "length (activityLog (addActivityLog clk c act n st s)) \<le> 50"
    by (simp add: a)
  have c: "localStorage (addActivityLog clk c act n st s) =
       saveActivityLog (activityLog (addActivityLog clk c act n st s)) (localStorage s)"
    by (simp add: addActivityLog_def Let_def)
  have d: "\<not> write_throws (localStorage s) \<longrightarrow>
        getItem (localStorage (addActivityLog clk c act n st s)) ''gmail_activity_log'' =
          (if read_throws (localStorage s) then Inl StorageError
           else Inr (Some (JSON_stringify
                  (json_of_logs (activityLog (addActivityLog clk c act n st s))))))"
    by (simp add: addActivityLog_def Let_def saveActivityLog_def setItem_def getItem_def)
  have e: "activityLog (appends es s) =
       (if es = [] then activityLog s
        else take 50 (rev (map log_entry es) @ activityLog s))"
    by (rule appends_log)
  have f: "es \<noteq> [] \<longrightarrow> length (activityLog (appends es s)) \<le> 50"
    by (simp add: e del: take_append)
  from a b c d e f show ?thesis by blast
qed

text \<open>
  One append from the first render, as the store then holds it; and 51 appends: 50
  entries remain, those of the calls 50 down to 1, and the entry of call 0 is gone.
\<close>

lemma activity_log_bounded_example:
  "\<not> write_throws (localStorage initial_state) \<and> numbered_calls 51 \<noteq> []
   \<and> getItem (localStorage
        (addActivityLog clk1 initial_state ''Scheduled cleanup executed'' 17 Success
           initial_state)) ''gmail_activity_log'' =
       Inr (Some (JsonText (JArr [JObj
         [(''id'', JStr ''2000''), (''timestamp'', JStr ''1970-01-01T00:00:02.000Z''),
          (''action'', JStr ''Scheduled cleanup executed''), (''emailsDeleted'', JNum 17),
          (''status'', JStr ''success'')]])))
   \<and> length (activityLog (appends (numbered_calls 51) initial_state)) = 50
   \<and> map emailsDeleted (activityLog (appends (numbered_calls 51) initial_state)) =
       map int (rev [1..<51])"
proof -
  have h1: "\<not> write_throws (localStorage initial_state)"
    by (simp add: initial_state_def empty_storage_def)
  have h2: "numbered_calls 51 \<noteq> []"
    by (simp add: numbered_calls_def)
  have h3: "activityLog initial_state = []" "\<not> read_throws (localStorage initial_state)"
    by (simp_all add: initial_state_def empty_storage_def)
  have h4: "map emailsDeleted (map log_entry (numbered_calls n)) = map int [0..<n]" for n
    by (simp add: numbered_calls_def log_entry_def comp_def)
  have h5: "take 50 (rev [0..<51]) = rev [1..<51]"
    by (simp add: take_rev upt_conv_Cons [of 0 51] del: upt_Suc)
  note t = activity_log_bounded [of clk1 initial_state "''Scheduled cleanup executed''" 17
      Success initial_state "numbered_calls 51"]
  have a: "activityLog (appends (numbered_calls 51) initial_state) =
      take 50 (rev (map log_entry (numbered_calls 51)))"
    using t h2 h3 by simp
  have b: "map emailsDeleted (activityLog (appends (numbered_calls 51) initial_state)) =
      map int (rev [1..<51])"
  proof -
    have "map emailsDeleted (take 50 (rev (map log_entry (numbered_calls 51)))) =
        take 50 (rev (map emailsDeleted (map log_entry (numbered_calls 51))))"
      by (simp only: take_map rev_map)
    also have "\<dots> = take 50 (rev (map int [0..<51]))"
      by (simp only: h4)
    also have "\<dots> = map int (take 50 (rev [0..<51]))"
      by (simp only: take_map rev_map)
    also have "\<dots> = map int (rev [1..<51])"
      by (simp only: h5)
    finally show ?thesis by (simp only: a)
  qed
  have c: "length (activityLog (appends (numbered_calls 51) initial_state)) = 50"
    unfolding a by (simp add: numbered_calls_def)
  have d: "getItem (localStorage
        (addActivityLog clk1 initial_state ''Scheduled cleanup executed'' 17 Success
           initial_state)) ''gmail_activity_log'' =
       Inr (Some (JsonText (JArr [JObj
         [(''id'', JStr ''2000''), (''timestamp'', JStr ''1970-01-01T00:00:02.000Z''),
          (''action'', JStr ''Scheduled cleanup executed''), (''emailsDeleted'', JNum 17),
          (''status'', JStr ''success'')]])))"
  proof -
    let ?s = "addActivityLog clk1 initial_state ''Scheduled cleanup executed'' 17 Success
           initial_state"
    from t h1 have "getItem (localStorage ?s) ''gmail_activity_log'' =
        (if read_throws (localStorage initial_state) then Inl StorageError
         else Inr (Some (JSON_stringify (json_of_logs (activityLog ?s)))))"
      by blast
    with h3 have g: "getItem (localStorage ?s) ''gmail_activity_log'' =
        Inr (Some (JSON_stringify (json_of_logs (activityLog ?s))))"
      by simp
    from t have "activityLog ?s =
        take 50 (\<lparr>al_id = show_nat (date_now clk1), al_timestamp = iso_now clk1,
               al_action = ''Scheduled cleanup executed'', emailsDeleted = 17,
               al_status = Success\<rparr> # activityLog initial_state)"
      by blast
    with h3 have l: "activityLog ?s =
        [\<lparr>al_id = ''2000'', al_timestamp = ''1970-01-01T00:00:02.000Z'',
          al_action = ''Scheduled cleanup executed'', emailsDeleted = 17,
          al_status = Success\<rparr>]"
      by (simp add: clk1_def show_nat.simps digit_char_def)
    show ?thesis
      unfolding g l
      by (simp add: JSON_stringify_def json_of_logs_def json_of_log_def status_text_def)
  qed
  from h1 h2 a b c d show ?thesis by blast
qed

text \<open>
  Claim C6. The list that \<open>addActivityLog\<close> extends is \<open>activityLog\<close> of the render in
  which the request was sent, not the current log (the transcript, the batch and the
  selection are updated from the current state). When a periodic run and a chat request
  overlap, the second answer therefore builds its list from the log as it was before the
  first answer: the entry of the first answer is gone from the log and from the store,
  although the log held one entry only. Here two appends leave a log of one entry.
\<close>

theorem C6_overlapping_requests_lose_entry:
  "activityLog overlap_chat_done =
     [\<lparr>al_id = ''2000'', al_timestamp = ''1970-01-01T00:00:02.000Z'',
       al_action = ''Chat cleanup: promotions'', emailsDeleted = 3, al_status = Success\<rparr>]
   \<and> activityLog overlap_both_done =
     [\<lparr>al_id = ''3000'', al_timestamp = ''1970-01-01T00:00:03.000Z'',
       al_action = ''Scheduled cleanup executed'', emailsDeleted = 17, al_status = Success\<rparr>]
   \<and> items (localStorage overlap_both_done) ''gmail_activity_log'' =
     Some (JsonText (JArr [JObj
       [(''id'', JStr ''3000''), (''timestamp'', JStr ''1970-01-01T00:00:03.000Z''),
        (''action'', JStr ''Scheduled cleanup executed''), (''emailsDeleted'', JNum 17),
        (''status'', JStr ''success'')]]))"
proof -
  have a: "activityLog overlap_chat_done =
     [\<lparr>al_id = ''2000'', al_timestamp = ''1970-01-01T00:00:02.000Z'',
       al_action = ''Chat cleanup: promotions'', emailsDeleted = 3, al_status = Success\<rparr>]"
    by (simp add: overlap_chat_done_def sendChatMessage_def sendChatMessage_begin_def
        sendChatMessage_resume_def sendChatMessage_try_def setChatInput_def setActiveTab_def
        runCleanupNow_begin_def initial_state_def success_envelope_def example_data_def
        js_trim_def is_space_def addActivityLog_def Let_def clk1_def show_nat.simps
        digit_char_def)
  have b: "activityLog overlap_both_done =
     [\<lparr>al_id = ''3000'', al_timestamp = ''1970-01-01T00:00:03.000Z'',
       al_action = ''Scheduled cleanup executed'', emailsDeleted = 17, al_status = Success\<rparr>]"
    by (simp add: overlap_both_done_def runCleanupNow_resume_def runCleanupNow_try_def
        success_envelope_def example_summary_def addActivityLog_def Let_def initial_state_def
        clk2_def show_nat.simps digit_char_def)
  have c: "write_throws (localStorage overlap_chat_done) = False"
    by (simp add: overlap_chat_done_def sendChatMessage_def sendChatMessage_begin_def
        sendChatMessage_resume_def sendChatMessage_try_def setChatInput_def setActiveTab_def
        runCleanupNow_begin_def initial_state_def success_envelope_def example_data_def
        js_trim_def is_space_def addActivityLog_def Let_def saveActivityLog_def setItem_def
        empty_storage_def)
  have d: "items (localStorage overlap_both_done) ''gmail_activity_log'' =
     Some (JsonText (JArr [JObj
       [(''id'', JStr ''3000''), (''timestamp'', JStr ''1970-01-01T00:00:03.000Z''),
        (''action'', JStr ''Scheduled cleanup executed''), (''emailsDeleted'', JNum 17),
        (''status'', JStr ''success'')]]))"
    by (simp add: overlap_both_done_def runCleanupNow_resume_def runCleanupNow_try_def
        success_envelope_def example_summary_def addActivityLog_def Let_def initial_state_def
        clk2_def show_nat.simps digit_char_def saveActivityLog_def setItem_def c
        JSON_stringify_def json_of_logs_def json_of_log_def status_text_def)
  from a b d show ?thesis by blast
qed

subsection \<open>Settings\<close>

text \<open>
  Claim C7, as the code has it. After a \<open>saveSettings\<close> that the store accepted,
  \<open>loadSettings\<close> returns the record saved, field for field. Over a store that throws
  on reading, has no settings item, or holds a text that is empty or not JSON,
  \<open>loadSettings\<close> returns the default record. A stored text that is JSON is returned as
  it parses, whatever its shape: nothing checks that it is a settings record.
\<close>

theorem C7_settings_load_save:
  "(\<not> write_throws (localStorage s) \<and> \<not> read_throws (localStorage s) \<longrightarrow>
      loadSettings (localStorage (saveSettings s)) = json_of_settings (settings s) \<and>
      settings_of_json (loadSettings (localStorage (saveSettings s))) = Some (settings s))
   \<and> (read_throws st \<or> items st ''gmail_cleanup_settings'' = None \<or>
       (\<exists>t. items st ''gmail_cleanup_settings'' = Some (OtherText t)) \<longrightarrow>
      loadSettings st = json_of_settings default_settings \<and>
      settings_of_json (loadSettings st) = Some default_settings)
   \<and> (\<not> read_throws st \<and> items st ''gmail_cleanup_settings'' = Some (JsonText v) \<longrightarrow>
      loadSettings st = v)"
  by (auto simp: loadSettings_def saveSettings_def getItem_def setItem_def JSON_stringify_def
      settings_roundtrip)

text \<open>
  A threshold of 60 days survives saving and loading; a store whose item is not JSON
  loads as the default; a stored object with one field loads as that object.
\<close>

theorem C7_settings_load_save_witness:
  "\<not> write_throws (localStorage sixty_days) \<and> \<not> read_throws (localStorage sixty_days)
   \<and> settings_of_json (loadSettings (localStorage (saveSettings sixty_days))) =
       Some (default_settings\<lparr>ageThreshold := 60\<rparr>)
   \<and> items corrupt_store ''gmail_cleanup_settings'' = Some (OtherText ''{promotional:'')
   \<and> settings_of_json (loadSettings corrupt_store) = Some default_settings
   \<and> loadSettings partial_store = JObj [(''promotional'', JBool False)]"
proof -
  have h1: "\<not> write_throws (localStorage sixty_days) \<and> \<not> read_throws (localStorage sixty_days)"
    by (simp add: sixty_days_def initial_state_def empty_storage_def)
  have h2: "items corrupt_store ''gmail_cleanup_settings'' = Some (OtherText ''{promotional:'')"
    by (simp add: corrupt_store_def)
  have h3: "\<not> read_throws partial_store \<and>
      items partial_store ''gmail_cleanup_settings'' =
        Some (JsonText (JObj [(''promotional'', JBool False)]))"
    by (simp add: partial_store_def)
  have h4: "settings sixty_days = default_settings\<lparr>ageThreshold := 60\<rparr>"
    by (simp add: sixty_days_def initial_state_def)
  from h1 h2 h3 h4
    C7_settings_load_save [of sixty_days corrupt_store "JObj []"]
    C7_settings_load_save [of sixty_days partial_store "JObj [(''promotional'', JBool False)]"]
  show ?thesis by auto
qed

text \<open>
  Over a store whose settings item is the object \<open>{"promotional": false}\<close>,
  \<open>loadSettings\<close> returns that object, which is not a complete settings record.
\<close>

theorem C7_partial_record_loaded:
  "loadSettings partial_store = JObj [(''promotional'', JBool False)] \<and>
   settings_of_json (loadSettings partial_store) = None"
  by (simp add: loadSettings_def partial_store_def getItem_def)

subsection \<open>Select all or none\<close>

text \<open>
  Claim C8, as the code has it. Let the ids of the batch be distinct. When the size of
  the selection differs from the size of the batch, one call of \<open>selectAllEmails\<close>
  selects the ids of the whole batch and a second call leaves the selection empty. When
  the two sizes are equal, one call empties the selection and a second call selects the
  whole batch, so that two calls leave the selection empty only over an empty batch.
\<close>

theorem C8_select_all_twice:
  assumes "distinct (map ep_id (emailPreviews s))"
  shows "(length (selectedEmails s) \<noteq> length (emailPreviews s) \<longrightarrow>
            selectedEmails (selectAllEmails s) = map ep_id (emailPreviews s) \<and>
            selectedEmails (selectAllEmails (selectAllEmails s)) = [])
       \<and> (length (selectedEmails s) = length (emailPreviews s) \<longrightarrow>
            selectedEmails (selectAllEmails s) = [] \<and>
            selectedEmails (selectAllEmails (selectAllEmails s)) =
              (if emailPreviews s = [] then [] else map ep_id (emailPreviews s)))"
  using assms by (auto simp: selectAllEmails_def new_Set_distinct)

text \<open>With three of five previews selected, two calls end with nothing selected.\<close>

theorem C8_select_all_twice_witness:
  "distinct (map ep_id (emailPreviews five_previews))
   \<and> length (selectedEmails five_previews) \<noteq> length (emailPreviews five_previews)
   \<and> selectedEmails (selectAllEmails five_previews) = [''e1'', ''e2'', ''e3'', ''e4'', ''e5'']
   \<and> selectedEmails (selectAllEmails (selectAllEmails five_previews)) = []"
proof -
  have h1: "distinct (map ep_id (emailPreviews five_previews))"
    by (simp add: five_previews_def example_preview_def)
  have h2: "length (selectedEmails five_previews) \<noteq> length (emailPreviews five_previews)"
    by (simp add: five_previews_def)
  have h3: "map ep_id (emailPreviews five_previews) = [''e1'', ''e2'', ''e3'', ''e4'', ''e5'']"
    by (simp add: five_previews_def example_preview_def)
  from h1 h2 h3 C8_select_all_twice [OF h1] show ?thesis by simp
qed

text \<open>
  With the one preview of the batch selected, two calls end with that preview selected
  again.
\<close>

theorem C8_full_selection_returns:
  "selectedEmails (selectAllEmails (selectAllEmails one_selected)) = [''e1'']"
  by (simp add: selectAllEmails_def one_selected_def initial_state_def new_Set_def
      set_add_def example_preview_def)

subsection \<open>Failed chat requests\<close>

text \<open>
  Claim C9. When the gateway call of a \<open>sendChatMessage\<close> with a non-blank input
  rejects, the transcript is the old one followed by the user's message and one
  assistant message with the fixed text, the input is empty, the error slot holds the
  fixed text, the gate is clear, and nothing else has changed: no entry is written to
  the log or the store. Whatever happened while the request was outstanding, the part
  after the \<open>await\<close> appends that one assistant message, sets the error slot and clears
  the gate.
\<close>

theorem C9_submit_transport_failure:
  "(js_trim (chatInput s) \<noteq> [] \<and> \<not> chatLoading s \<and>
    gw \<lparr>req_message = chatInput s, req_agent = RANDOM_AGENT_ID\<rparr> = Rejected \<longrightarrow>
      sendChatMessage clk clk' gw s =
        s\<lparr>chatMessages := chatMessages s @
             [\<lparr>cm_id = show_nat (date_now clk), cm_role = User, content = chatInput s,
               cm_timestamp = iso_now clk\<rparr>,
              \<lparr>cm_id = show_nat (date_now clk' + 1), cm_role = Assistant,
               content = ''Network error. Please try again.'', cm_timestamp = iso_now clk'\<rparr>],
           chatInput := [], chatError := Some ''Network error. Please try again.''\<rparr>)
   \<and> sendChatMessage_resume clk' c Rejected s =
        s\<lparr>chatError := Some ''Network error. Please try again.'',
           chatMessages := chatMessages s @
             [\<lparr>cm_id = show_nat (date_now clk' + 1), cm_role = Assistant,
               content = ''Network error. Please try again.'', cm_timestamp = iso_now clk'\<rparr>],
           chatLoading := False\<rparr>"
  by (simp add: sendChatMessage_def sendChatMessage_begin_def sendChatMessage_resume_def
      sendChatMessage_catch_def assistant_message_def network_error_def Let_def)

text \<open>A query typed over a shown preview, and a gateway that rejects.\<close>

theorem C9_submit_transport_failure_witness:
  "js_trim (chatInput typed_query) \<noteq> [] \<and> \<not> chatLoading typed_query
   \<and> chatMessages (sendChatMessage clk0 clk1 (\<lambda>req. Rejected) typed_query) =
       [\<lparr>cm_id = ''1000'', cm_role = User, content = ''Show promotional emails'',
         cm_timestamp = ''1970-01-01T00:00:01.000Z''\<rparr>,
        \<lparr>cm_id = ''2001'', cm_role = Assistant, content = ''Network error. Please try again.'',
         cm_timestamp = ''1970-01-01T00:00:02.000Z''\<rparr>]
   \<and> \<not> chatLoading (sendChatMessage clk0 clk1 (\<lambda>req. Rejected) typed_query)
   \<and> activityLog (sendChatMessage clk0 clk1 (\<lambda>req. Rejected) typed_query) = []"
proof -
  have h1: "js_trim (chatInput typed_query) \<noteq> []"
    by (simp add: typed_query_def setChatInput_def js_trim_def is_space_def)
  have h2: "\<not> chatLoading typed_query"
    by (simp add: typed_query_def setChatInput_def one_selected_def initial_state_def)
  have h3: "chatMessages typed_query = [] \<and> activityLog typed_query = []"
    by (simp add: typed_query_def setChatInput_def one_selected_def initial_state_def)
  have h4: "chatInput typed_query = ''Show promotional emails''"
    by (simp add: typed_query_def setChatInput_def)
  from h1 h2 h3 h4
    C9_submit_transport_failure [of typed_query "\<lambda>req. Rejected" clk0 clk1 typed_query]
  show ?thesis
    by (simp add: clk0_def clk1_def show_nat.simps digit_char_def)
qed

text \<open>
  Claim C10, as the code has it. When a \<open>sendChatMessage\<close> ends in failure (the gateway
  call rejects, the envelope or its status is not a success, or the result is missing),
  the part after the \<open>await\<close> changes the error slot and the transcript and clears the
  gate, nothing else. Over the whole invocation the batch of previews, the selection,
  the settings, the activity log, the store, the tab and the state of the periodic
  runner are what they were and the gate is back where it was; three variables differ:
  the transcript (the user's message and one assistant message appended), the error
  slot, and the input, cleared when the request was sent.
\<close>

theorem C10_failed_submit_frame:
  "(agent_failure out \<longrightarrow>
      sendChatMessage_resume clk' c out s =
        s\<lparr>chatError := Some (submit_error_text out),
           chatMessages := chatMessages s @ [assistant_message clk' (submit_error_text out)],
           chatLoading := False\<rparr>)
   \<and> (agent_failure (gw \<lparr>req_message = chatInput s, req_agent = RANDOM_AGENT_ID\<rparr>) \<longrightarrow>
      emailPreviews (sendChatMessage clk clk' gw s) = emailPreviews s \<and>
      selectedEmails (sendChatMessage clk clk' gw s) = selectedEmails s \<and>
      settings (sendChatMessage clk clk' gw s) = settings s \<and>
      activityLog (sendChatMessage clk clk' gw s) = activityLog s \<and>
      localStorage (sendChatMessage clk clk' gw s) = localStorage s \<and>
      activeTab (sendChatMessage clk clk' gw s) = activeTab s \<and>
      periodicLoading (sendChatMessage clk clk' gw s) = periodicLoading s \<and>
      periodicError (sendChatMessage clk clk' gw s) = periodicError s \<and>
      settingsSaved (sendChatMessage clk clk' gw s) = settingsSaved s \<and>
      chatLoading (sendChatMessage clk clk' gw s) = chatLoading s \<and>
      chatInput (sendChatMessage clk clk' gw s) =
        (if js_trim (chatInput s) = [] \<or> chatLoading s then chatInput s else []))
   \<and> (js_trim (chatInput s) \<noteq> [] \<and> \<not> chatLoading s \<and>
       agent_failure (gw \<lparr>req_message = chatInput s, req_agent = RANDOM_AGENT_ID\<rparr>) \<longrightarrow>
      sendChatMessage clk clk' gw s =
        s\<lparr>chatMessages := chatMessages s @
             [\<lparr>cm_id = show_nat (date_now clk), cm_role = User, content = chatInput s,
               cm_timestamp = iso_now clk\<rparr>,
              assistant_message clk'
                (submit_error_text
                   (gw \<lparr>req_message = chatInput s, req_agent = RANDOM_AGENT_ID\<rparr>))],
           chatInput := [],
           chatError := Some (submit_error_text
                   (gw \<lparr>req_message = chatInput s, req_agent = RANDOM_AGENT_ID\<rparr>))\<rparr>)"
proof -
  have a: "agent_failure out \<Longrightarrow>
      sendChatMessage_resume clk' c out s =
        s\<lparr>chatError := Some (submit_error_text out),
           chatMessages := chatMessages s @ [assistant_message clk' (submit_error_text out)],
           chatLoading := False\<rparr>" for out c s
    by (auto simp: agent_failure_def submit_error_text_def sendChatMessage_resume_def
        sendChatMessage_try_def sendChatMessage_catch_def Let_def
        split: outcome.splits option.splits if_splits)
  have b: "agent_failure (gw \<lparr>req_message = chatInput s, req_agent = RANDOM_AGENT_ID\<rparr>) \<longrightarrow>
      emailPreviews (sendChatMessage clk clk' gw s) = emailPreviews s \<and>
      selectedEmails (sendChatMessage clk clk' gw s) = selectedEmails s \<and>
      settings (sendChatMessage clk clk' gw s) = settings s \<and>
      activityLog (sendChatMessage clk clk' gw s) = activityLog s \<and>
      localStorage (sendChatMessage clk clk' gw s) = localStorage s \<and>
      activeTab (sendChatMessage clk clk' gw s) = activeTab s \<and>
      periodicLoading (sendChatMessage clk clk' gw s) = periodicLoading s \<and>
      periodicError (sendChatMessage clk clk' gw s) = periodicError s \<and>
      settingsSaved (sendChatMessage clk clk' gw s) = settingsSaved s \<and>
      chatLoading (sendChatMessage clk clk' gw s) = chatLoading s \<and>
      chatInput (sendChatMessage clk clk' gw s) =
        (if js_trim (chatInput s) = [] \<or> chatLoading s then chatInput s else [])"
    by (simp add: sendChatMessage_def sendChatMessage_begin_def a Let_def)
  have g: "js_trim (chatInput s) \<noteq> [] \<and> \<not> chatLoading s \<and>
       agent_failure (gw \<lparr>req_message = chatInput s, req_agent = RANDOM_AGENT_ID\<rparr>) \<longrightarrow>
      sendChatMessage clk clk' gw s =
        s\<lparr>chatMessages := chatMessages s @
             [\<lparr>cm_id = show_nat (date_now clk), cm_role = User, content = chatInput s,
               cm_timestamp = iso_now clk\<rparr>,
              assistant_message clk'
                (submit_error_text
                   (gw \<lparr>req_message = chatInput s, req_agent = RANDOM_AGENT_ID\<rparr>))],
           chatInput := [],
           chatError := Some (submit_error_text
                   (gw \<lparr>req_message = chatInput s, req_agent = RANDOM_AGENT_ID\<rparr>))\<rparr>"
    by (simp add: sendChatMessage_def sendChatMessage_begin_def a Let_def)
  from a [of out c s] b g show ?thesis by blast
qed

text \<open>
  The agent answers a query with a failure envelope while a preview is shown and
  selected: the preview and its selection stay, and nothing is logged.
\<close>

theorem C10_failed_submit_frame_witness:
  "agent_failure (Resolved (failure_envelope ''Agent unavailable'') :: RandomAgentResponse outcome)
   \<and> emailPreviews (sendChatMessage clk0 clk1
        (\<lambda>req. Resolved (failure_envelope ''Agent unavailable'')) typed_query) =
       [example_preview ''e1'']
   \<and> selectedEmails (sendChatMessage clk0 clk1
        (\<lambda>req. Resolved (failure_envelope ''Agent unavailable'')) typed_query) = [''e1'']
   \<and> activityLog (sendChatMessage clk0 clk1
        (\<lambda>req. Resolved (failure_envelope ''Agent unavailable'')) typed_query) = []
   \<and> settings (sendChatMessage clk0 clk1
        (\<lambda>req. Resolved (failure_envelope ''Agent unavailable'')) typed_query) = default_settings"
proof -
  have h1: "agent_failure
      (Resolved (failure_envelope ''Agent unavailable'') :: RandomAgentResponse outcome)"
    by (simp add: agent_failure_def failure_envelope_def)
  have h2: "emailPreviews typed_query = [example_preview ''e1''] \<and>
      selectedEmails typed_query = [''e1''] \<and> activityLog typed_query = [] \<and>
      settings typed_query = default_settings"
    by (simp add: typed_query_def setChatInput_def one_selected_def initial_state_def)
  from h1 h2
    C10_failed_submit_frame [of "Resolved (failure_envelope ''Agent unavailable'')" clk1
      typed_query typed_query "\<lambda>req. Resolved (failure_envelope ''Agent unavailable'')" clk0]
  show ?thesis by simp
qed

text \<open>
  A query is typed and the agent answers with a failure envelope: the invocation ends in
  failure and the input, which held the query, is empty afterwards.
\<close>

theorem C10_input_cleared_by_failed_submit:
  "agent_failure (gw_unavailable
      \<lparr>req_message = chatInput typed_query, req_agent = RANDOM_AGENT_ID\<rparr>)
   \<and> chatInput typed_query = ''Show promotional emails''
   \<and> chatInput (sendChatMessage clk0 clk1 gw_unavailable typed_query) = []"
  by (simp add: agent_failure_def gw_unavailable_def failure_envelope_def typed_query_def
      setChatInput_def one_selected_def initial_state_def sendChatMessage_def
      sendChatMessage_begin_def sendChatMessage_resume_def sendChatMessage_try_def
      js_trim_def is_space_def Let_def)

end
